theory Spec2Isabelle
  imports Main
begin

section \<open>The cart store of \<^verbatim>\<open>src/hooks/useCart.tsx\<close>\<close>

text \<open>
  The hook keeps one piece of React state, \<^verbatim>\<open>cart\<close>, and talks to three collaborators:
  the HTTP client \<^verbatim>\<open>api\<close> (stock levels and catalogue data), the browser's
  \<^verbatim>\<open>localStorage\<close> under the single key \<^verbatim>\<open>@RocketShoes:cart\<close>, and \<^verbatim>\<open>toast.error\<close>.
  The model passes a record of everything the three operations can observe or change, and
  takes the collaborators' answers as parameters. Operations run one at a time: each call
  starts from the state the previous one left, so the \<^verbatim>\<open>cart\<close> its closure holds is the
  current state.

  Numbers: \<^verbatim>\<open>productId\<close> and \<^verbatim>\<open>amount\<close> are TypeScript \<^verbatim>\<open>number\<close>s, that is, doubles,
  which the data model of the specification declares to hold integers; they are \<^typ>\<open>int\<close>
  here. The comparisons \<^verbatim>\<open><\<close>, \<^verbatim>\<open>>=\<close> and \<^verbatim>\<open>===\<close> of two such numbers are the comparisons of
  the integers. The one arithmetic operation of the code, \<^verbatim>\<open>+ 1\<close>, is not the addition of
  integers from \<open>2 ^ 53\<close> on, and is modelled as the addition of doubles.
\<close>

subsection \<open>Numbers\<close>

text \<open>
  A double has 53 significant bits. For a natural number \<open>n\<close>, \<open>ulp n\<close> is the distance of
  the doubles around \<open>n\<close> (1 below \<open>2 ^ 53\<close>, then doubling with every further bit), and
  \<open>nearest_double n\<close> is the double nearest to \<open>n\<close>, the one with the even significand when
  \<open>n\<close> lies half way between two.
\<close>

fun ulp :: "nat \<Rightarrow> nat" where
  "ulp n = (if n < 2 ^ 53 then 1 else 2 * ulp (n div 2))"

definition nearest_double :: "nat \<Rightarrow> nat" where
  "nearest_double n =
     (let u = ulp n; q = n div u; r = n mod u in
      if 2 * r < u \<or> (2 * r = u \<and> even q) then q * u else (q + 1) * u)"

text \<open>
  \<^verbatim>\<open>a + b\<close> on two numbers that hold integers: the exact sum, rounded to the nearest
  double. (With \<open>b = 1\<close>, the only use in the code, the sum of a finite double and 1 never
  leaves the finite doubles.) An integer that no double holds, the first being
  \<open>2 ^ 53 + 1\<close>, is not a value of the program.
\<close>

definition plus_number :: "int \<Rightarrow> int \<Rightarrow> int" where
  "plus_number a b =
     (let x = a + b in
      if x < 0 then - int (nearest_double (nat (- x))) else int (nearest_double (nat x)))"

subsection \<open>Data\<close>

text \<open>
  Modelled from the spec: the type \<^verbatim>\<open>Product\<close> of \<^verbatim>\<open>../types\<close>, a file that is not among
  the sources. The data model of the specification gives a product an integer \<^verbatim>\<open>id\<close>, an
  integer \<^verbatim>\<open>amount\<close> and catalogue fields (name, price, image) that are passed through
  unmodified. The code reads \<^verbatim>\<open>id\<close> and \<^verbatim>\<open>amount\<close> only; the catalogue fields are carried
  along by the object spreads and are one opaque component here. The field \<^verbatim>\<open>id\<close> is
  called \<open>id_num\<close>, since \<open>id\<close> is the identity function of HOL.
\<close>

record 'a product =
  id_num :: int
  catalog :: 'a
  amount :: int

text \<open>
  Modelled from the spec: \<^verbatim>\<open>Omit<Product, 'amount'>\<close>, what \<^verbatim>\<open>GET products/<id>\<close> answers:
  all the fields of a product except \<^verbatim>\<open>amount\<close>.
\<close>

record 'a product_data =
  data_id :: int
  data_fields :: 'a

text \<open>
  Modelled from the spec: the type \<^verbatim>\<open>Stock\<close> of \<^verbatim>\<open>../types\<close>, what \<^verbatim>\<open>GET stock/<id>\<close>
  answers: the id of a product and the amount in stock. The code reads \<^verbatim>\<open>amount\<close> only.
\<close>

record stock =
  stock_id :: int
  stock_amount :: int

text \<open>
  The four texts handed to \<^verbatim>\<open>toast.error\<close> (they are Portuguese and not ASCII, so they are
  constructors rather than strings):
  \<^item> \<open>OutOfStock\<close>: "Quantidade solicitada fora de estoque";
  \<^item> \<open>AddError\<close>: "Erro na adicao do produto";
  \<^item> \<open>RemoveError\<close>: "Erro na remocao do produto";
  \<^item> \<open>UpdateError\<close>: "Erro na alteracao de quantidade do produto".
\<close>

datatype toast = OutOfStock | AddError | RemoveError | UpdateError

text \<open>
  What can be thrown: a rejected \<^verbatim>\<open>api.get\<close>, the \<^verbatim>\<open>SyntaxError\<close> of \<^verbatim>\<open>JSON.parse\<close>, the
  \<^verbatim>\<open>new Error()\<close> the code throws itself, and the \<^verbatim>\<open>QuotaExceededError\<close> of
  \<^verbatim>\<open>localStorage.setItem\<close> on a store that is full or switched off.
\<close>

datatype js_error = RequestFailed | SyntaxError | Error | QuotaExceededError

datatype request = GetStock int | GetProduct int

text \<open>
  The collaborators, as parameters. \<^verbatim>\<open>api\<close> comes from \<^verbatim>\<open>../services/api\<close>, which is not
  among the sources: \<open>api_stock\<close> and \<open>api_products\<close> are the answers of its two
  endpoints to \<^verbatim>\<open>api.get\<close>, \<open>None\<close> when the request is rejected (the \<^verbatim>\<open>await\<close>
  throws). \<open>JSON_stringify\<close> and \<open>JSON_parse\<close> are the two built-ins of the language,
  on carts; \<open>JSON_parse\<close> answers \<open>Inl\<close> when it throws. \<open>setItem_throws\<close> tells
  whether \<^verbatim>\<open>localStorage.setItem\<close> throws when the operation calls it (an operation calls it
  at most once).
\<close>

record 'a platform =
  api_stock :: "int \<Rightarrow> stock option"
  api_products :: "int \<Rightarrow> 'a product_data option"
  JSON_stringify :: "'a product list \<Rightarrow> string"
  JSON_parse :: "string \<Rightarrow> js_error + 'a product list"
  setItem_throws :: bool

text \<open>
  The state: the React state \<open>cart\<close>; the item stored under the cart key
  (\<open>None\<close> when \<^verbatim>\<open>getItem\<close> answers \<^verbatim>\<open>null\<close>); and four logs, oldest entry first: every
  text passed to \<^verbatim>\<open>setItem\<close> (also by a call that throws), every \<^verbatim>\<open>toast.error\<close>, every
  request sent, and every error thrown by a state updater while React runs it.
\<close>

record 'a store =
  cart :: "'a product list"
  localStorage :: "string option"
  writes :: "string list"
  toasts :: "toast list"
  requests :: "request list"
  uncaught :: "js_error list"

subsection \<open>Initial state\<close>

text \<open>
  The initialiser of \<^verbatim>\<open>useState\<close> (lines 27 to 35). A string is truthy when it is not
  empty. Nothing catches what \<^verbatim>\<open>JSON.parse\<close> throws.
\<close>

definition CartProvider_init :: "'a platform \<Rightarrow> string option \<Rightarrow> js_error + 'a product list" where
  "CartProvider_init env storagedCart =
     (case storagedCart of
        None \<Rightarrow> Inr []
      | Some s \<Rightarrow> if s \<noteq> [] then JSON_parse env s else Inr [])"

subsection \<open>Helpers\<close>

definition toast_error :: "toast \<Rightarrow> 'a store \<Rightarrow> 'a store" where
  "toast_error msg st = st\<lparr>toasts := toasts st @ [msg]\<rparr>"

definition setCart :: "'a product list \<Rightarrow> 'a store \<Rightarrow> 'a store" where
  "setCart c st = st\<lparr>cart := c\<rparr>"

definition checkStockAvailability ::
  "'a platform \<Rightarrow> int \<Rightarrow> int \<Rightarrow> 'a store \<Rightarrow> (js_error + bool) \<times> 'a store" where
  "checkStockAvailability env productId requiredQuantity st =
     (let st1 = st\<lparr>requests := requests st @ [GetStock productId]\<rparr> in
      case api_stock env productId of
        None \<Rightarrow> (Inl RequestFailed, st1)
      | Some checkStockResponseData \<Rightarrow>
          (Inr (stock_amount checkStockResponseData \<ge> requiredQuantity), st1))"

definition fetchProductData ::
  "'a platform \<Rightarrow> int \<Rightarrow> 'a store \<Rightarrow> (js_error + 'a product_data) \<times> 'a store" where
  "fetchProductData env productId st =
     (let st1 = st\<lparr>requests := requests st @ [GetProduct productId]\<rparr> in
      case api_products env productId of
        None \<Rightarrow> (Inl RequestFailed, st1)
      | Some productData \<Rightarrow> (Inr productData, st1))"

text \<open>
  \<^verbatim>\<open>saveToLocalStorage\<close> (lines 58 to 62): \<^verbatim>\<open>setItem\<close> either replaces the stored item or
  throws and leaves it.
\<close>

definition saveToLocalStorage ::
  "'a platform \<Rightarrow> 'a product list \<Rightarrow> 'a store \<Rightarrow> (js_error + unit) \<times> 'a store" where
  "saveToLocalStorage env cartToSave st =
     (let stringifiedCart = JSON_stringify env cartToSave;
          st1 = st\<lparr>writes := writes st @ [stringifiedCart]\<rparr>
      in if setItem_throws env then (Inl QuotaExceededError, st1)
         else (Inr (), st1\<lparr>localStorage := Some stringifiedCart\<rparr>))"

text \<open>
  \<^verbatim>\<open>setCart(current => ...)\<close>: React runs the updater on the current state. When the
  updater returns, its result is the new state. When it throws, the state stays, and the
  error is thrown inside React, not at a place the source shows; the model logs it.
\<close>

definition setCart_updater ::
  "('a product list \<Rightarrow> 'a store \<Rightarrow> (js_error + 'a product list) \<times> 'a store)
   \<Rightarrow> 'a store \<Rightarrow> 'a store" where
  "setCart_updater updater st =
     (case updater (cart st) st of
        (Inl e, st1) \<Rightarrow> st1\<lparr>uncaught := uncaught st1 @ [e]\<rparr>
      | (Inr c, st1) \<Rightarrow> setCart c st1)"

subsection \<open>addProduct\<close>

text \<open>
  The body of the \<^verbatim>\<open>try\<close> block: \<open>Inl\<close> is an exception on its way to the \<^verbatim>\<open>catch\<close>,
  \<open>Inr\<close> a normal end (also the two early \<^verbatim>\<open>return\<close>s). \<^verbatim>\<open>cart\<close> is the value the
  closure holds, which is the state's when the operation is called on the current render.
  When \<^verbatim>\<open>saveToLocalStorage\<close> throws, \<^verbatim>\<open>setCart\<close> is not reached.
\<close>

definition addProduct_try :: "'a platform \<Rightarrow> int \<Rightarrow> 'a store \<Rightarrow> (js_error + unit) \<times> 'a store" where
  "addProduct_try env productId st =
     (case find (\<lambda>product. id_num product = productId) (cart st) of
        None \<Rightarrow>
          (case checkStockAvailability env productId 1 st of
             (Inl e, st1) \<Rightarrow> (Inl e, st1)
           | (Inr isAvailableInStock, st1) \<Rightarrow>
               if \<not> isAvailableInStock then (Inr (), toast_error OutOfStock st1)
               else
                 (case fetchProductData env productId st1 of
                    (Inl e, st2) \<Rightarrow> (Inl e, st2)
                  | (Inr productData, st2) \<Rightarrow>
                      (let updatedCart = cart st @
                         [\<lparr>id_num = data_id productData, catalog = data_fields productData,
                           amount = 1\<rparr>]
                       in case saveToLocalStorage env updatedCart st2 of
                            (Inl e, st3) \<Rightarrow> (Inl e, st3)
                          | (Inr u, st3) \<Rightarrow> (Inr (), setCart updatedCart st3))))
      | Some productAlreadyInCart \<Rightarrow>
          (let currentQuantity = amount productAlreadyInCart in
           case checkStockAvailability env productId (plus_number currentQuantity 1) st of
             (Inl e, st1) \<Rightarrow> (Inl e, st1)
           | (Inr isAvailableInStock, st1) \<Rightarrow>
               if \<not> isAvailableInStock then (Inr (), toast_error OutOfStock st1)
               else
                 (let updatedCart =
                    map (\<lambda>product.
                      if id_num product = productId
                      then product\<lparr>amount := plus_number (amount product) 1\<rparr>
                      else product) (cart st)
                  in case saveToLocalStorage env updatedCart st1 of
                       (Inl e, st2) \<Rightarrow> (Inl e, st2)
                     | (Inr u, st2) \<Rightarrow> (Inr (), setCart updatedCart st2))))"

definition addProduct :: "'a platform \<Rightarrow> int \<Rightarrow> 'a store \<Rightarrow> 'a store" where
  "addProduct env productId st =
     (case addProduct_try env productId st of
        (Inl e, st') \<Rightarrow> toast_error AddError st'
      | (Inr u, st') \<Rightarrow> st')"

subsection \<open>removeProduct\<close>

definition removeProduct_try :: "'a platform \<Rightarrow> int \<Rightarrow> 'a store \<Rightarrow> (js_error + unit) \<times> 'a store" where
  "removeProduct_try env productId st =
     (let isProductInCart = (find (\<lambda>product. id_num product = productId) (cart st) \<noteq> None) in
      if \<not> isProductInCart then (Inl Error, st)
      else
        (let updatedCart = filter (\<lambda>product. id_num product \<noteq> productId) (cart st)
         in case saveToLocalStorage env updatedCart st of
              (Inl e, st1) \<Rightarrow> (Inl e, st1)
            | (Inr u, st1) \<Rightarrow> (Inr (), setCart updatedCart st1)))"

definition removeProduct :: "'a platform \<Rightarrow> int \<Rightarrow> 'a store \<Rightarrow> 'a store" where
  "removeProduct env productId st =
     (case removeProduct_try env productId st of
        (Inl e, st') \<Rightarrow> toast_error RemoveError st'
      | (Inr u, st') \<Rightarrow> st')"

subsection \<open>updateProductAmount\<close>

text \<open>
  The last step hands \<^verbatim>\<open>setCart\<close> an updater, which React applies to the current state
  (\<open>current\<close>) and which saves the cart it computes before it returns it.
\<close>

definition updateProductAmount_try ::
  "'a platform \<Rightarrow> int \<Rightarrow> int \<Rightarrow> 'a store \<Rightarrow> (js_error + unit) \<times> 'a store" where
  "updateProductAmount_try env productId amount' st =
     (if amount' < 1 then (Inr (), st)
      else if find (\<lambda>product. id_num product = productId) (cart st) = None then (Inl Error, st)
      else
        (case checkStockAvailability env productId amount' st of
           (Inl e, st1) \<Rightarrow> (Inl e, st1)
         | (Inr isAvailableInStock, st1) \<Rightarrow>
             if \<not> isAvailableInStock then (Inr (), toast_error OutOfStock st1)
             else
               (Inr (),
                setCart_updater
                  (\<lambda>current st2.
                     let updatedCart =
                       map (\<lambda>product.
                         if id_num product = productId
                         then product\<lparr>amount := amount'\<rparr>
                         else product) current
                     in case saveToLocalStorage env updatedCart st2 of
                          (Inl e, st3) \<Rightarrow> (Inl e, st3)
                        | (Inr u, st3) \<Rightarrow> (Inr updatedCart, st3))
                  st1)))"

definition updateProductAmount :: "'a platform \<Rightarrow> int \<Rightarrow> int \<Rightarrow> 'a store \<Rightarrow> 'a store" where
  "updateProductAmount env productId amount' st =
     (case updateProductAmount_try env productId amount' st of
        (Inl e, st') \<Rightarrow> toast_error UpdateError st'
      | (Inr u, st') \<Rightarrow> st')"

subsection \<open>The invariants of the data model, and runs of the store\<close>

text \<open>I1 and I2 of the data model: every amount is at least 1, and no id occurs twice.\<close>

definition cart_inv :: "'a product list \<Rightarrow> bool" where
  "cart_inv c \<longleftrightarrow> (\<forall>product \<in> set c. 1 \<le> amount product) \<and> distinct (map id_num c)"

text \<open>
  \<^verbatim>\<open>addProduct\<close> copies the \<^verbatim>\<open>id\<close> of the new product from the answer of
  \<^verbatim>\<open>GET products/<productId>\<close>. The catalogue is consistent at \<open>productId\<close> when that
  answer, if there is one, is about the product that was asked for.
\<close>

definition consistent_catalog :: "'a platform \<Rightarrow> int \<Rightarrow> bool" where
  "consistent_catalog env productId =
     (case api_products env productId of
        None \<Rightarrow> True
      | Some productData \<Rightarrow> data_id productData = productId)"

text \<open>
  The surface of the store (\<^verbatim>\<open>CartContextData\<close>) as a datatype of calls; a run applies
  calls one after the other, each against the collaborators as they answer at that moment.
\<close>

datatype call = AddProduct int | RemoveProduct int | UpdateProductAmount int int

fun exec :: "'a platform \<Rightarrow> call \<Rightarrow> 'a store \<Rightarrow> 'a store" where
  "exec env (AddProduct productId) st = addProduct env productId st"
| "exec env (RemoveProduct productId) st = removeProduct env productId st"
| "exec env (UpdateProductAmount productId amount') st =
     updateProductAmount env productId amount' st"

fun consistent_call :: "'a platform \<times> call \<Rightarrow> bool" where
  "consistent_call (env, AddProduct productId) = consistent_catalog env productId"
| "consistent_call (env, RemoveProduct productId) = True"
| "consistent_call (env, UpdateProductAmount productId amount') = True"

fun run :: "('a platform \<times> call) list \<Rightarrow> 'a store \<Rightarrow> 'a store" where
  "run [] st = st"
| "run ((env, c) # calls) st = run calls (exec env c st)"

text \<open>
  A call is accepted when it passes every check of its operation, in the words of the
  specification: for \<^verbatim>\<open>addProduct\<close>, the stock covers 1 and the catalogue answers when the
  product is not in the cart, and the stock covers the required quantity when it is; for
  \<^verbatim>\<open>removeProduct\<close>, the product is in the cart; for \<^verbatim>\<open>updateProductAmount\<close>, the amount
  is at least 1, the product is in the cart and the stock covers the amount. A mutation is
  successful when the call is accepted and the store takes the write.
\<close>

fun accepted :: "'a platform \<Rightarrow> call \<Rightarrow> 'a store \<Rightarrow> bool" where
  "accepted env (AddProduct productId) st =
     (case api_stock env productId of
        None \<Rightarrow> False
      | Some s \<Rightarrow>
          (case find (\<lambda>product. id_num product = productId) (cart st) of
             None \<Rightarrow> 1 \<le> stock_amount s \<and> api_products env productId \<noteq> None
           | Some p \<Rightarrow> plus_number (amount p) 1 \<le> stock_amount s))"
| "accepted env (RemoveProduct productId) st =
     (find (\<lambda>product. id_num product = productId) (cart st) \<noteq> None)"
| "accepted env (UpdateProductAmount productId amount') st =
     (1 \<le> amount' \<and> find (\<lambda>product. id_num product = productId) (cart st) \<noteq> None
      \<and> (case api_stock env productId of
            None \<Rightarrow> False
          | Some s \<Rightarrow> amount' \<le> stock_amount s))"

subsection \<open>A concrete shop\<close>

text \<open>
  To run the model on concrete inputs the collaborators need concrete answers. The two
  built-ins are represented on carts whose products have the fields \<^verbatim>\<open>id\<close> and
  \<^verbatim>\<open>amount\<close> only: \<open>JSON_stringify_plain\<close> writes the text \<^verbatim>\<open>JSON.stringify\<close> writes for
  such a cart, and \<open>JSON_parse_plain\<close> reads texts of this form and answers
  \<open>SyntaxError\<close> to a text of any other form.
\<close>

fun show_nat :: "nat \<Rightarrow> string" where
  "show_nat n =
     (if n < 10 then [''0123456789'' ! n]
      else show_nat (n div 10) @ [''0123456789'' ! (n mod 10)])"

definition show_int :: "int \<Rightarrow> string" where
  "show_int i = (if i < 0 then CHR ''-'' # show_nat (nat (- i)) else show_nat (nat i))"

definition stringify_product :: "unit product \<Rightarrow> string" where
  \<open>stringify_product p =
     ''{"id":'' @ show_int (id_num p) @ '',"amount":'' @ show_int (amount p) @ ''}''\<close>

fun join_commas :: "string list \<Rightarrow> string" where
  "join_commas [] = []"
| "join_commas [x] = x"
| "join_commas (x # y # ys) = x @ '','' @ join_commas (y # ys)"

definition JSON_stringify_plain :: "unit product list \<Rightarrow> string" where
  "JSON_stringify_plain c = ''['' @ join_commas (map stringify_product c) @ '']''"

definition is_digit :: "char \<Rightarrow> bool" where
  "is_digit c = (c \<in> set ''0123456789'')"

text \<open>A number ends where the text ends or a character that is no digit follows.\<close>

definition stops :: "string \<Rightarrow> bool" where
  "stops r \<longleftrightarrow> (case r of [] \<Rightarrow> True | c # r' \<Rightarrow> \<not> is_digit c)"

definition expect :: "string \<Rightarrow> string \<Rightarrow> string option" where
  "expect lit s = (if take (length lit) s = lit then Some (drop (length lit) s) else None)"

definition read_nat :: "string \<Rightarrow> (nat \<times> string) option" where
  "read_nat s =
     (let ds = takeWhile is_digit s in
      if ds = [] \<or> (1 < length ds \<and> hd ds = CHR ''0'') then None
      else Some (foldl (\<lambda>n c. 10 * n + (of_char c - 48)) 0 ds, dropWhile is_digit s))"

definition read_int :: "string \<Rightarrow> (int \<times> string) option" where
  "read_int s =
     (case s of
        [] \<Rightarrow> None
      | c # s' \<Rightarrow>
          if c = CHR ''-'' then map_option (\<lambda>(n, r). (- int n, r)) (read_nat s')
          else map_option (\<lambda>(n, r). (int n, r)) (read_nat s))"

definition read_product :: "string \<Rightarrow> (unit product \<times> string) option" where
  \<open>read_product s =
     (case expect ''{"id":'' s of
        None \<Rightarrow> None
      | Some s1 \<Rightarrow>
     (case read_int s1 of
        None \<Rightarrow> None
      | Some (i, s2) \<Rightarrow>
     (case expect '',"amount":'' s2 of
        None \<Rightarrow> None
      | Some s3 \<Rightarrow>
     (case read_int s3 of
        None \<Rightarrow> None
      | Some (a, s4) \<Rightarrow>
     (case expect ''}'' s4 of
        None \<Rightarrow> None
      | Some s5 \<Rightarrow> Some (\<lparr>id_num = i, catalog = (), amount = a\<rparr>, s5))))))\<close>

text \<open>Every product takes at least one character, so the length of the text is fuel enough.\<close>

fun read_products :: "nat \<Rightarrow> string \<Rightarrow> unit product list option" where
  "read_products 0 s = None"
| "read_products (Suc fuel) s =
     (case read_product s of
        None \<Rightarrow> None
      | Some (p, rest) \<Rightarrow>
          if rest = '']'' then Some [p]
          else (case expect '','' rest of
                  None \<Rightarrow> None
                | Some rest' \<Rightarrow> map_option ((#) p) (read_products fuel rest')))"

definition JSON_parse_plain :: "string \<Rightarrow> js_error + unit product list" where
  "JSON_parse_plain s =
     (if s = ''[]'' then Inr []
      else case expect ''['' s of
             None \<Rightarrow> Inl SyntaxError
           | Some s' \<Rightarrow>
               (case read_products (length s') s' of
                  None \<Rightarrow> Inl SyntaxError
                | Some c \<Rightarrow> Inr c))"

text \<open>
  The shop: three units of product 5 in stock, none of product 7, one of product 8,
  \<open>2 ^ 53\<close> of product 4 and \<open>2 ^ 54\<close> of product 6, all five in the catalogue; every other
  request is rejected. Its store takes every write.
\<close>

definition shop :: "unit platform" where
  "shop =
     \<lparr>api_stock = (\<lambda>productId.
        if productId = 5 then Some \<lparr>stock_id = 5, stock_amount = 3\<rparr>
        else if productId = 7 then Some \<lparr>stock_id = 7, stock_amount = 0\<rparr>
        else if productId = 8 then Some \<lparr>stock_id = 8, stock_amount = 1\<rparr>
        else if productId = 4 then Some \<lparr>stock_id = 4, stock_amount = 9007199254740992\<rparr>
        else if productId = 6 then Some \<lparr>stock_id = 6, stock_amount = 18014398509481984\<rparr>
        else None),
      api_products = (\<lambda>productId.
        if productId = 4 \<or> productId = 5 \<or> productId = 6 \<or> productId = 7 \<or> productId = 8
        then Some \<lparr>data_id = productId, data_fields = ()\<rparr>
        else None),
      JSON_stringify = JSON_stringify_plain,
      JSON_parse = JSON_parse_plain,
      setItem_throws = False\<rparr>"

text \<open>A store that holds the cart \<open>c\<close> and has done nothing yet.\<close>

definition store_of :: "'a product list \<Rightarrow> 'a store" where
  "store_of c =
     \<lparr>cart = c, localStorage = None, writes = [], toasts = [], requests = [], uncaught = []\<rparr>"

definition item :: "int \<Rightarrow> int \<Rightarrow> unit product" where
  "item i n = \<lparr>id_num = i, catalog = (), amount = n\<rparr>"

section \<open>Properties\<close>

subsection \<open>Adding numbers\<close>

declare ulp.simps [simp del]

lemma ulp_small: "n < 2 ^ 53 \<Longrightarrow> ulp n = 1"
  by (subst ulp.simps) simp

lemma ulp_large: "\<not> n < 2 ^ 53 \<Longrightarrow> ulp n = 2 * ulp (n div 2)"
  by (subst ulp.simps) simp

lemma ulp_pos: "0 < ulp n"
  by (induction n rule: ulp.induct) (subst ulp.simps, simp)

lemma ulp_le: "0 < n \<Longrightarrow> ulp n \<le> n"
proof (induction n rule: ulp.induct)
  case (1 n)
  show ?case
  proof (cases "n < 2 ^ 53")
    case True
    with 1(2) show ?thesis by (simp add: ulp_small)
  next
    case False
    then have "0 < n div 2" by simp
    with 1(1) False have "ulp (n div 2) \<le> n div 2" by simp
    with False show ?thesis by (simp add: ulp_large)
  qed
qed

text \<open>Up to \<open>2 ^ 53\<close> every natural number is a double.\<close>

lemma nearest_double_exact: "n \<le> 2 ^ 53 \<Longrightarrow> nearest_double n = n"
proof (cases "n < 2 ^ 53")
  case True
  then show ?thesis by (simp add: nearest_double_def ulp_small)
next
  case False
  assume "n \<le> 2 ^ 53"
  with False have n: "n = 2 ^ 53" by simp
  have "ulp (2 ^ 53) = 2" by (simp add: ulp_large ulp_small)
  with n show ?thesis by (simp add: nearest_double_def)
qed

lemma nearest_double_pos: "0 < n \<Longrightarrow> 0 < nearest_double n"
proof -
  assume n: "0 < n"
  then have "ulp n \<le> n" by (rule ulp_le)
  then have "0 < n div ulp n" using ulp_pos [of n] by (simp add: div_greater_zero_iff)
  with ulp_pos [of n] show ?thesis by (simp add: nearest_double_def Let_def)
qed

text \<open>
  The sum of the code is the sum of the integers as long as that sum stays within
  \<open>2 ^ 53\<close>; it is positive whenever that sum is; and it stands still at \<open>2 ^ 53\<close>.
\<close>

lemma plus_number_exact:
  "- (2 ^ 53) \<le> a + b \<Longrightarrow> a + b \<le> 2 ^ 53 \<Longrightarrow> plus_number a b = a + b"
  by (simp add: plus_number_def Let_def nearest_double_exact nat_le_iff)

lemma plus_number_pos: "0 < a + b \<Longrightarrow> 0 < plus_number a b"
  by (simp add: plus_number_def Let_def nearest_double_pos)

lemma plus_number_stands_still: "plus_number 9007199254740992 1 = 9007199254740992"
  by (simp add: plus_number_def nearest_double_def ulp_large ulp_small)

subsection \<open>Looking up, replacing and removing by id\<close>

lemmas helper_defs = checkStockAvailability_def fetchProductData_def saveToLocalStorage_def
  setCart_def setCart_updater_def toast_error_def Let_def

lemmas shop_defs = shop_def store_of_def item_def

lemma find_id_None:
  "(find (\<lambda>product. id_num product = productId) c = None) = (productId \<notin> id_num ` set c)"
  by (auto simp: find_None_iff)

lemma find_id_distinct:
  "distinct (map id_num c) \<Longrightarrow> i < length c \<Longrightarrow>
   find (\<lambda>product. id_num product = id_num (c ! i)) c = Some (c ! i)"
proof (induction c arbitrary: i)
  case Nil
  then show ?case by simp
next
  case (Cons p c)
  show ?case
  proof (cases i)
    case 0
    then show ?thesis by simp
  next
    case (Suc j)
    with Cons.prems have j: "j < length c" and d: "distinct (map id_num c)"
      and "id_num p \<notin> id_num ` set c" by auto
    then have "id_num p \<noteq> id_num (c ! j)" using nth_mem by (metis imageI)
    with Cons.IH [OF d j] Suc show ?thesis by simp
  qed
qed

lemma map_id_distinct:
  assumes "distinct (map id_num c)" and "i < length c"
  shows "map (\<lambda>product. if id_num product = id_num (c ! i) then g product else product) c
         = c[i := g (c ! i)]"
proof (rule nth_equalityI)
  show "length (map (\<lambda>product. if id_num product = id_num (c ! i) then g product else product) c)
        = length (c[i := g (c ! i)])" by simp
next
  fix j
  assume "j < length (map (\<lambda>product. if id_num product = id_num (c ! i) then g product else product) c)"
  then have j: "j < length c" by simp
  have "id_num (c ! j) = id_num (c ! i) \<longleftrightarrow> j = i"
    using assms j nth_eq_iff_index_eq [of "map id_num c" j i] by simp
  with j assms(2)
  show "map (\<lambda>product. if id_num product = id_num (c ! i) then g product else product) c ! j
        = c[i := g (c ! i)] ! j"
    by (simp add: nth_list_update)
qed

lemma filter_id_distinct:
  "distinct (map id_num c) \<Longrightarrow> i < length c \<Longrightarrow>
   filter (\<lambda>product. id_num product \<noteq> id_num (c ! i)) c = take i c @ drop (Suc i) c"
proof (induction c arbitrary: i)
  case Nil
  then show ?case by simp
next
  case (Cons p c)
  from Cons.prems have d: "distinct (map id_num c)" and np: "id_num p \<notin> id_num ` set c"
    by auto
  show ?case
  proof (cases i)
    case 0
    have "filter (\<lambda>product. id_num product \<noteq> id_num p) c = c"
      using np by (simp add: filter_id_conv) (metis imageI)
    with 0 show ?thesis by simp
  next
    case (Suc j)
    with Cons.prems have j: "j < length c" by simp
    then have "id_num p \<noteq> id_num (c ! j)" using np nth_mem by (metis imageI)
    with Cons.IH [OF d j] Suc show ?thesis by simp
  qed
qed

subsection \<open>addProduct\<close>

text \<open>
  C2. When \<open>productId\<close> is not in the cart, the stock endpoint answers an amount of at
  least 1, the catalogue resolves \<open>productId\<close> (the precondition of \<^verbatim>\<open>addProduct\<close>) to
  \<open>d\<close> and the store takes the write, then \<^verbatim>\<open>addProduct\<close> appends one product, made of
  \<open>d\<close> and \<open>amount = 1\<close>, at the end of the cart: the cart is one longer and its old part
  is unchanged.
\<close>

theorem addProduct_absent_appends:
  assumes "productId \<notin> id_num ` set (cart st)"
    and "api_stock env productId = Some s" and "1 \<le> stock_amount s"
    and "api_products env productId = Some d"
    and "\<not> setItem_throws env"
  shows "cart (addProduct env productId st)
           = cart st @ [\<lparr>id_num = data_id d, catalog = data_fields d, amount = 1\<rparr>]
       \<and> length (cart (addProduct env productId st)) = length (cart st) + 1
       \<and> take (length (cart st)) (cart (addProduct env productId st)) = cart st
       \<and> amount (last (cart (addProduct env productId st))) = 1"
proof -
  from assms(1) have "find (\<lambda>product. id_num product = productId) (cart st) = None"
    by (simp add: find_id_None)
  with assms(2-5) have "cart (addProduct env productId st)
           = cart st @ [\<lparr>id_num = data_id d, catalog = data_fields d, amount = 1\<rparr>]"
    by (simp add: addProduct_def addProduct_try_def helper_defs)
  then show ?thesis by simp
qed

text \<open>Product 8 is added behind the two products the cart holds, which stay as they are.\<close>

theorem addProduct_absent_appends_witness:
  "8 \<notin> id_num ` set (cart (store_of [item 7 4, item 5 2]))
   \<and> api_stock shop 8 = Some \<lparr>stock_id = 8, stock_amount = 1\<rparr>
   \<and> api_products shop 8 = Some \<lparr>data_id = 8, data_fields = ()\<rparr>
   \<and> \<not> setItem_throws shop
   \<and> cart (addProduct shop 8 (store_of [item 7 4, item 5 2])) = [item 7 4, item 5 2, item 8 1]
   \<and> length (cart (addProduct shop 8 (store_of [item 7 4, item 5 2]))) = 3
   \<and> take 2 (cart (addProduct shop 8 (store_of [item 7 4, item 5 2]))) = [item 7 4, item 5 2]
   \<and> last (cart (addProduct shop 8 (store_of [item 7 4, item 5 2]))) = item 8 1"
proof -
  have h1: "8 \<notin> id_num ` set (cart (store_of [item 7 4, item 5 2]))"
    by (simp add: shop_defs)
  have h2: "api_stock shop 8 = Some \<lparr>stock_id = 8, stock_amount = 1\<rparr>"
    by (simp add: shop_defs)
  have h3: "1 \<le> stock_amount \<lparr>stock_id = 8, stock_amount = 1\<rparr>"
    by simp
  have h4: "api_products shop 8 = Some \<lparr>data_id = 8, data_fields = ()\<rparr>"
    by (simp add: shop_defs)
  have h5: "\<not> setItem_throws shop"
    by (simp add: shop_defs)
  from addProduct_absent_appends [OF h1 h2 h3 h4 h5]
  have "cart (addProduct shop 8 (store_of [item 7 4, item 5 2]))
          = cart (store_of [item 7 4, item 5 2])
            @ [\<lparr>id_num = data_id \<lparr>data_id = 8, data_fields = ()\<rparr>,
                catalog = data_fields \<lparr>data_id = 8, data_fields = ()\<rparr>, amount = 1\<rparr>]"
    by (rule conjunct1)
  then have "cart (addProduct shop 8 (store_of [item 7 4, item 5 2]))
               = [item 7 4, item 5 2, item 8 1]"
    by (simp add: store_of_def item_def)
  with h1 h2 h4 h5 show ?thesis by simp
qed

text \<open>
  C3, within the numbers that \<^verbatim>\<open>+ 1\<close> counts. In a cart with unique ids (I2), when the
  product with id \<open>productId\<close> (at position \<open>i\<close>) has an amount \<open>k\<close> from \<open>- 2 ^ 53\<close> up to,
  but not including, \<open>2 ^ 53\<close>, the stock endpoint answers an amount of at least \<open>k + 1\<close>
  and the store takes the write, \<^verbatim>\<open>addProduct\<close> yields the cart in which position \<open>i\<close>
  holds the same product with amount \<open>k + 1\<close>, and which is the old cart everywhere else.
\<close>

theorem addProduct_present_increments:
  assumes "distinct (map id_num (cart st))"
    and "i < length (cart st)" and "id_num (cart st ! i) = productId"
    and "amount (cart st ! i) = k" and "- (2 ^ 53) \<le> k" and "k < 2 ^ 53"
    and "api_stock env productId = Some s" and "k + 1 \<le> stock_amount s"
    and "\<not> setItem_throws env"
  shows "cart (addProduct env productId st) = (cart st)[i := (cart st ! i)\<lparr>amount := k + 1\<rparr>]"
proof -
  from assms(1-3)
  have f: "find (\<lambda>product. id_num product = productId) (cart st) = Some (cart st ! i)"
    using find_id_distinct by blast
  from assms(5,6) have e: "plus_number k 1 = k + 1"
    by (intro plus_number_exact) simp_all
  have m: "map (\<lambda>product. if id_num product = productId
                            then product\<lparr>amount := plus_number (amount product) 1\<rparr>
                            else product) (cart st)
           = (cart st)[i := (cart st ! i)\<lparr>amount := k + 1\<rparr>]"
    using map_id_distinct [OF assms(1,2),
        of "\<lambda>product. product\<lparr>amount := plus_number (amount product) 1\<rparr>"]
      assms(3,4) e by simp
  from f assms(4,7-9) e have "cart (addProduct env productId st) =
     map (\<lambda>product. if id_num product = productId
                      then product\<lparr>amount := plus_number (amount product) 1\<rparr>
                      else product) (cart st)"
    by (simp add: addProduct_def addProduct_try_def helper_defs)
  with m show ?thesis by simp
qed

text \<open>The second step of the scenario, with a bystander in front: product 5 goes from 1 to 2.\<close>

theorem addProduct_present_increments_witness:
  "distinct (map id_num (cart (store_of [item 7 4, item 5 1])))
   \<and> 1 < length (cart (store_of [item 7 4, item 5 1]))
   \<and> id_num (cart (store_of [item 7 4, item 5 1]) ! 1) = 5
   \<and> amount (cart (store_of [item 7 4, item 5 1]) ! 1) = 1
   \<and> - (2 ^ 53) \<le> (1::int) \<and> (1::int) < 2 ^ 53
   \<and> api_stock shop 5 = Some \<lparr>stock_id = 5, stock_amount = 3\<rparr>
   \<and> \<not> setItem_throws shop
   \<and> cart (addProduct shop 5 (store_of [item 7 4, item 5 1])) = [item 7 4, item 5 2]"
proof -
  have h1: "distinct (map id_num (cart (store_of [item 7 4, item 5 1])))"
    by (simp add: shop_defs)
  have h2: "1 < length (cart (store_of [item 7 4, item 5 1]))"
    by (simp add: shop_defs)
  have h3: "id_num (cart (store_of [item 7 4, item 5 1]) ! 1) = 5"
    by (simp add: shop_defs)
  have h4: "amount (cart (store_of [item 7 4, item 5 1]) ! 1) = 1"
    by (simp add: shop_defs)
  have h5: "- (2 ^ 53) \<le> (1::int)"
    by simp
  have h6: "(1::int) < 2 ^ 53"
    by simp
  have h7: "api_stock shop 5 = Some \<lparr>stock_id = 5, stock_amount = 3\<rparr>"
    by (simp add: shop_defs)
  have h8: "(1::int) + 1 \<le> stock_amount \<lparr>stock_id = 5, stock_amount = 3\<rparr>"
    by simp
  have h9: "\<not> setItem_throws shop"
    by (simp add: shop_defs)
  from addProduct_present_increments [OF h1 h2 h3 h4 h5 h6 h7 h8 h9] h1 h2 h3 h4 h7 h9
  show ?thesis
    by (simp add: store_of_def item_def)
qed

text \<open>
  C3, as it is stated, fails at \<open>k = 2 ^ 53\<close>: the stock (\<open>2 ^ 54\<close>) covers \<open>k + 1\<close>, and
  the amount that \<^verbatim>\<open>addProduct\<close> publishes is \<open>k\<close>, since \<^verbatim>\<open>k + 1\<close> is \<open>k\<close> in the numbers of
  the code.
\<close>

theorem addProduct_present_increments_counterexample:
  "distinct (map id_num (cart (store_of [item 6 9007199254740992])))
   \<and> id_num (cart (store_of [item 6 9007199254740992]) ! 0) = 6
   \<and> amount (cart (store_of [item 6 9007199254740992]) ! 0) = 9007199254740992
   \<and> api_stock shop 6 = Some \<lparr>stock_id = 6, stock_amount = 18014398509481984\<rparr>
   \<and> 9007199254740992 + 1 \<le> stock_amount \<lparr>stock_id = 6, stock_amount = 18014398509481984\<rparr>
   \<and> cart (addProduct shop 6 (store_of [item 6 9007199254740992])) = [item 6 9007199254740992]
   \<and> cart (addProduct shop 6 (store_of [item 6 9007199254740992]))
       \<noteq> [item 6 (9007199254740992 + 1)]"
  by (simp add: shop_defs addProduct_def addProduct_try_def helper_defs plus_number_stands_still)

text \<open>
  C4, within the numbers that \<^verbatim>\<open>+ 1\<close> counts. When the stock endpoint answers an amount
  below the required quantity (1 when \<open>productId\<close> is not in the cart, the current amount
  plus 1 when it is, the current amount being from \<open>- 2 ^ 53\<close> up to, but not including,
  \<open>2 ^ 53\<close>), \<^verbatim>\<open>addProduct\<close> leaves the cart and the stored item as they were, calls
  \<^verbatim>\<open>setItem\<close> not once, and calls \<^verbatim>\<open>toast.error\<close> exactly once, with the out-of-stock
  text.
\<close>

theorem addProduct_insufficient_stock:
  assumes "api_stock env productId = Some s"
    and "stock_amount s <
           (case find (\<lambda>product. id_num product = productId) (cart st) of
              None \<Rightarrow> 1 | Some productAlreadyInCart \<Rightarrow> amount productAlreadyInCart + 1)"
    and "case find (\<lambda>product. id_num product = productId) (cart st) of
           None \<Rightarrow> True
         | Some productAlreadyInCart \<Rightarrow>
             - (2 ^ 53) \<le> amount productAlreadyInCart \<and> amount productAlreadyInCart < 2 ^ 53"
  shows "cart (addProduct env productId st) = cart st
       \<and> localStorage (addProduct env productId st) = localStorage st
       \<and> writes (addProduct env productId st) = writes st
       \<and> toasts (addProduct env productId st) = toasts st @ [OutOfStock]"
proof (cases "find (\<lambda>product. id_num product = productId) (cart st)")
  case None
  with assms show ?thesis
    by (simp add: addProduct_def addProduct_try_def helper_defs)
next
  case (Some productAlreadyInCart)
  with assms(3) have "plus_number (amount productAlreadyInCart) 1 = amount productAlreadyInCart + 1"
    by (intro plus_number_exact) simp_all
  with Some assms(1,2) show ?thesis
    by (simp add: addProduct_def addProduct_try_def helper_defs)
qed

text \<open>
  Product 7 is absent and out of stock; product 5 is present three times over, which is
  all the stock there is.
\<close>

theorem addProduct_insufficient_stock_witness:
  "api_stock shop 7 = Some \<lparr>stock_id = 7, stock_amount = 0\<rparr>
   \<and> find (\<lambda>product. id_num product = 7) (cart (store_of [item 5 3])) = None
   \<and> cart (addProduct shop 7 (store_of [item 5 3])) = [item 5 3]
   \<and> writes (addProduct shop 7 (store_of [item 5 3])) = []
   \<and> toasts (addProduct shop 7 (store_of [item 5 3])) = [OutOfStock]
   \<and> api_stock shop 5 = Some \<lparr>stock_id = 5, stock_amount = 3\<rparr>
   \<and> find (\<lambda>product. id_num product = 5) (cart (store_of [item 5 3])) = Some (item 5 3)
   \<and> - (2 ^ 53) \<le> amount (item 5 3) \<and> amount (item 5 3) < 2 ^ 53
   \<and> cart (addProduct shop 5 (store_of [item 5 3])) = [item 5 3]
   \<and> writes (addProduct shop 5 (store_of [item 5 3])) = []
   \<and> toasts (addProduct shop 5 (store_of [item 5 3])) = [OutOfStock]"
proof -
  have a1: "api_stock shop 7 = Some \<lparr>stock_id = 7, stock_amount = 0\<rparr>"
    by (simp add: shop_defs)
  have a2: "find (\<lambda>product. id_num product = 7) (cart (store_of [item 5 3])) = None"
    by (simp add: shop_defs)
  have a3: "stock_amount \<lparr>stock_id = 7, stock_amount = 0\<rparr> <
      (case find (\<lambda>product. id_num product = 7) (cart (store_of [item 5 3])) of
         None \<Rightarrow> 1 | Some productAlreadyInCart \<Rightarrow> amount productAlreadyInCart + 1)"
    by (simp add: shop_defs)
  have a4: "case find (\<lambda>product. id_num product = 7) (cart (store_of [item 5 3])) of
         None \<Rightarrow> True
       | Some productAlreadyInCart \<Rightarrow>
           - (2 ^ 53) \<le> amount productAlreadyInCart \<and> amount productAlreadyInCart < 2 ^ 53"
    by (simp add: shop_defs)
  have b1: "api_stock shop 5 = Some \<lparr>stock_id = 5, stock_amount = 3\<rparr>"
    by (simp add: shop_defs)
  have b2: "find (\<lambda>product. id_num product = 5) (cart (store_of [item 5 3])) = Some (item 5 3)"
    by (simp add: shop_defs)
  have b3: "stock_amount \<lparr>stock_id = 5, stock_amount = 3\<rparr> <
      (case find (\<lambda>product. id_num product = 5) (cart (store_of [item 5 3])) of
         None \<Rightarrow> 1 | Some productAlreadyInCart \<Rightarrow> amount productAlreadyInCart + 1)"
    by (simp add: shop_defs)
  have b4: "case find (\<lambda>product. id_num product = 5) (cart (store_of [item 5 3])) of
         None \<Rightarrow> True
       | Some productAlreadyInCart \<Rightarrow>
           - (2 ^ 53) \<le> amount productAlreadyInCart \<and> amount productAlreadyInCart < 2 ^ 53"
    by (simp add: shop_defs)
  have b5: "- (2 ^ 53) \<le> amount (item 5 3) \<and> amount (item 5 3) < 2 ^ 53"
    by (simp add: item_def)
  from addProduct_insufficient_stock [OF a1 a3 a4] addProduct_insufficient_stock [OF b1 b3 b4]
    a1 a2 b1 b2 b5
  show ?thesis
    by (simp add: store_of_def)
qed

text \<open>
  C4, as it is stated, fails at the amount \<open>2 ^ 53\<close>: the stock (\<open>2 ^ 53\<close>) is below the
  amount plus 1, and yet \<^verbatim>\<open>addProduct\<close> notifies nothing and writes to the store, since the
  required quantity it computes, \<^verbatim>\<open>currentQuantity + 1\<close>, is \<open>2 ^ 53\<close> too.
\<close>

theorem addProduct_insufficient_stock_counterexample:
  "api_stock shop 4 = Some \<lparr>stock_id = 4, stock_amount = 9007199254740992\<rparr>
   \<and> find (\<lambda>product. id_num product = 4) (cart (store_of [item 4 9007199254740992]))
       = Some (item 4 9007199254740992)
   \<and> stock_amount \<lparr>stock_id = 4, stock_amount = 9007199254740992\<rparr>
       < amount (item 4 9007199254740992) + 1
   \<and> toasts (addProduct shop 4 (store_of [item 4 9007199254740992])) = []
   \<and> writes (addProduct shop 4 (store_of [item 4 9007199254740992]))
       = [JSON_stringify_plain [item 4 9007199254740992]]
   \<and> writes (addProduct shop 4 (store_of [item 4 9007199254740992]))
       \<noteq> writes (store_of [item 4 9007199254740992])"
  by (simp add: shop_defs addProduct_def addProduct_try_def helper_defs plus_number_stands_still)

text \<open>
  The remaining paths of \<^verbatim>\<open>addProduct\<close> end in its \<^verbatim>\<open>catch\<close>. When the stock request
  is rejected, or the stock suffices and the catalogue request is rejected, the cart and
  the store stay as they were and the add-failed text is notified.
\<close>

lemma addProduct_request_rejected:
  assumes "api_stock env productId = None
           \<or> (\<exists>s. api_stock env productId = Some s
                 \<and> productId \<notin> id_num ` set (cart st) \<and> 1 \<le> stock_amount s
                 \<and> api_products env productId = None)"
  shows "cart (addProduct env productId st) = cart st
       \<and> localStorage (addProduct env productId st) = localStorage st
       \<and> writes (addProduct env productId st) = writes st
       \<and> toasts (addProduct env productId st) = toasts st @ [AddError]"
proof (cases "find (\<lambda>product. id_num product = productId) (cart st)")
  case None
  with assms show ?thesis
    by (auto simp: addProduct_def addProduct_try_def helper_defs)
next
  case (Some productAlreadyInCart)
  then have "productId \<in> id_num ` set (cart st)"
    using find_id_None [of productId "cart st"] by simp
  with Some assms show ?thesis
    by (auto simp: addProduct_def addProduct_try_def helper_defs)
qed

text \<open>
  So it is when every check is passed and the store refuses the write: \<^verbatim>\<open>setCart\<close> is not
  reached.
\<close>

lemma addProduct_save_fails:
  assumes "accepted env (AddProduct productId) st" and "setItem_throws env"
  shows "cart (addProduct env productId st) = cart st
       \<and> localStorage (addProduct env productId st) = localStorage st
       \<and> toasts (addProduct env productId st) = toasts st @ [AddError]"
  using assms
  by (auto simp: addProduct_def addProduct_try_def helper_defs split: option.splits)

subsection \<open>removeProduct\<close>

text \<open>
  C5. In a cart with unique ids: when \<open>productId\<close> is the id of the product at
  position \<open>i\<close> and the store takes the write, \<^verbatim>\<open>removeProduct\<close> yields the cart without
  position \<open>i\<close> and with every other position as it was, one shorter, and notifies
  nothing; when no product has the id \<open>productId\<close>, it leaves the cart and the stored
  item as they were, calls \<^verbatim>\<open>setItem\<close> not once and calls \<^verbatim>\<open>toast.error\<close> once, with the
  removal text.
\<close>

theorem removeProduct_removes_or_notifies:
  assumes "distinct (map id_num (cart st))"
  shows "(\<forall>i < length (cart st).
            id_num (cart st ! i) = productId \<and> \<not> setItem_throws env \<longrightarrow>
            cart (removeProduct env productId st) = take i (cart st) @ drop (Suc i) (cart st)
          \<and> length (cart (removeProduct env productId st)) + 1 = length (cart st)
          \<and> productId \<notin> id_num ` set (cart (removeProduct env productId st))
          \<and> toasts (removeProduct env productId st) = toasts st)
       \<and> (productId \<notin> id_num ` set (cart st) \<longrightarrow>
            cart (removeProduct env productId st) = cart st
          \<and> localStorage (removeProduct env productId st) = localStorage st
          \<and> writes (removeProduct env productId st) = writes st
          \<and> toasts (removeProduct env productId st) = toasts st @ [RemoveError])"
proof (intro conjI allI impI)
  fix i
  assume i: "i < length (cart st)"
    and "id_num (cart st ! i) = productId \<and> \<not> setItem_throws env"
  then have p: "id_num (cart st ! i) = productId" and t: "\<not> setItem_throws env"
    by simp_all
  from assms i p
  have f: "find (\<lambda>product. id_num product = productId) (cart st) = Some (cart st ! i)"
    using find_id_distinct by blast
  have r: "filter (\<lambda>product. id_num product \<noteq> productId) (cart st)
        = take i (cart st) @ drop (Suc i) (cart st)"
    using filter_id_distinct [OF assms i] p by simp
  from f t have c: "cart (removeProduct env productId st)
        = filter (\<lambda>product. id_num product \<noteq> productId) (cart st)"
    by (simp add: removeProduct_def removeProduct_try_def helper_defs)
  with r show "cart (removeProduct env productId st) = take i (cart st) @ drop (Suc i) (cart st)"
    by simp
  with i show "length (cart (removeProduct env productId st)) + 1 = length (cart st)"
    by simp
  from c show "productId \<notin> id_num ` set (cart (removeProduct env productId st))"
    by auto
  from f t show "toasts (removeProduct env productId st) = toasts st"
    by (simp add: removeProduct_def removeProduct_try_def helper_defs)
next
  assume "productId \<notin> id_num ` set (cart st)"
  then have n: "find (\<lambda>product. id_num product = productId) (cart st) = None"
    by (simp add: find_id_None)
  then show "cart (removeProduct env productId st) = cart st"
    and "localStorage (removeProduct env productId st) = localStorage st"
    and "writes (removeProduct env productId st) = writes st"
    and "toasts (removeProduct env productId st) = toasts st @ [RemoveError]"
    by (simp_all add: removeProduct_def removeProduct_try_def helper_defs)
qed

text \<open>
  Removing product 5 from between two others; and the third scenario of the
  specification: removing product 9, which is not there.
\<close>

theorem removeProduct_removes_or_notifies_witness:
  "distinct (map id_num (cart (store_of [item 7 4, item 5 2, item 8 1])))
   \<and> 1 < length (cart (store_of [item 7 4, item 5 2, item 8 1]))
   \<and> id_num (cart (store_of [item 7 4, item 5 2, item 8 1]) ! 1) = 5
   \<and> \<not> setItem_throws shop
   \<and> cart (removeProduct shop 5 (store_of [item 7 4, item 5 2, item 8 1])) = [item 7 4, item 8 1]
   \<and> toasts (removeProduct shop 5 (store_of [item 7 4, item 5 2, item 8 1])) = []
   \<and> 9 \<notin> id_num ` set (cart (store_of [item 7 4, item 5 2, item 8 1]))
   \<and> cart (removeProduct shop 9 (store_of [item 7 4, item 5 2, item 8 1]))
       = [item 7 4, item 5 2, item 8 1]
   \<and> writes (removeProduct shop 9 (store_of [item 7 4, item 5 2, item 8 1])) = []
   \<and> toasts (removeProduct shop 9 (store_of [item 7 4, item 5 2, item 8 1])) = [RemoveError]"
proof -
  have h1: "distinct (map id_num (cart (store_of [item 7 4, item 5 2, item 8 1])))"
    by (simp add: shop_defs)
  have h2: "1 < length (cart (store_of [item 7 4, item 5 2, item 8 1]))"
    by (simp add: shop_defs)
  have h3: "id_num (cart (store_of [item 7 4, item 5 2, item 8 1]) ! 1) = 5"
    by (simp add: shop_defs)
  have h4: "9 \<notin> id_num ` set (cart (store_of [item 7 4, item 5 2, item 8 1]))"
    by (simp add: shop_defs)
  have h5: "\<not> setItem_throws shop"
    by (simp add: shop_defs)
  from removeProduct_removes_or_notifies [OF h1, of 5 shop] h2 h3 h5
  have a: "cart (removeProduct shop 5 (store_of [item 7 4, item 5 2, item 8 1]))
             = take 1 (cart (store_of [item 7 4, item 5 2, item 8 1]))
               @ drop (Suc 1) (cart (store_of [item 7 4, item 5 2, item 8 1]))
         \<and> toasts (removeProduct shop 5 (store_of [item 7 4, item 5 2, item 8 1]))
             = toasts (store_of [item 7 4, item 5 2, item 8 1])"
    by blast
  from removeProduct_removes_or_notifies [OF h1, of 9 shop] h4
  have b: "cart (removeProduct shop 9 (store_of [item 7 4, item 5 2, item 8 1]))
             = cart (store_of [item 7 4, item 5 2, item 8 1])
         \<and> writes (removeProduct shop 9 (store_of [item 7 4, item 5 2, item 8 1]))
             = writes (store_of [item 7 4, item 5 2, item 8 1])
         \<and> toasts (removeProduct shop 9 (store_of [item 7 4, item 5 2, item 8 1]))
             = toasts (store_of [item 7 4, item 5 2, item 8 1]) @ [RemoveError]"
    by blast
  from a b h1 h2 h3 h4 h5 show ?thesis
    by (simp add: store_of_def)
qed

text \<open>
  When the product is in the cart and the store refuses the write, the \<^verbatim>\<open>catch\<close> of
  \<^verbatim>\<open>removeProduct\<close> runs: the cart and the stored item stay, and the removal text is
  notified.
\<close>

lemma removeProduct_save_fails:
  assumes "accepted env (RemoveProduct productId) st" and "setItem_throws env"
  shows "cart (removeProduct env productId st) = cart st
       \<and> localStorage (removeProduct env productId st) = localStorage st
       \<and> toasts (removeProduct env productId st) = toasts st @ [RemoveError]"
  using assms
  by (auto simp: removeProduct_def removeProduct_try_def helper_defs)

subsection \<open>updateProductAmount\<close>

text \<open>
  C6. With an amount below 1, \<^verbatim>\<open>updateProductAmount\<close> returns the state it was given:
  the cart and the stored item are unchanged, and nothing is written, requested or
  notified.
\<close>

theorem updateProductAmount_below_one:
  "amount' < 1 \<Longrightarrow> updateProductAmount env productId amount' st = st"
  by (simp add: updateProductAmount_def updateProductAmount_try_def)

text \<open>The second scenario of the specification: product 5 with amount 2, set to 0.\<close>

theorem updateProductAmount_below_one_witness:
  "(0::int) < 1 \<and> updateProductAmount shop 5 0 (store_of [item 5 2]) = store_of [item 5 2]"
proof -
  have h: "(0::int) < 1" by simp
  from updateProductAmount_below_one [OF h] show ?thesis by simp
qed

text \<open>
  C7. When \<open>productId\<close> is the id of a product in the cart, the amount asked for is at
  least 1, the stock endpoint answers at least that amount and the store takes the write,
  \<^verbatim>\<open>updateProductAmount\<close> yields the cart in which every product with the id
  \<open>productId\<close> has the amount asked for and is otherwise as it was, and every other
  product is as it was; in a cart with unique ids (I2) that is the old cart with the one
  position of \<open>productId\<close> replaced. That cart is the published state, its text is
  written to the store, and nothing is notified.
\<close>

theorem updateProductAmount_sets_amount:
  assumes "productId \<in> id_num ` set (cart st)"
    and "1 \<le> amount'"
    and "api_stock env productId = Some s" and "amount' \<le> stock_amount s"
    and "\<not> setItem_throws env"
    and "st' = updateProductAmount env productId amount' st"
  shows "cart st' = map (\<lambda>product. if id_num product = productId
                                        then product\<lparr>amount := amount'\<rparr> else product) (cart st)
       \<and> (\<forall>product \<in> set (cart st'). id_num product = productId \<longrightarrow> amount product = amount')
       \<and> (\<forall>i < length (cart st). id_num (cart st ! i) \<noteq> productId \<longrightarrow>
             cart st' ! i = cart st ! i)
       \<and> (distinct (map id_num (cart st)) \<longrightarrow>
            (\<forall>i < length (cart st). id_num (cart st ! i) = productId \<longrightarrow>
               cart st' = (cart st)[i := (cart st ! i)\<lparr>amount := amount'\<rparr>]))
       \<and> localStorage st' = Some (JSON_stringify env (cart st'))
       \<and> writes st' = writes st @ [JSON_stringify env (cart st')]
       \<and> toasts st' = toasts st"
proof -
  let ?new = "map (\<lambda>product. if id_num product = productId
                                then product\<lparr>amount := amount'\<rparr> else product) (cart st)"
  from assms(1) obtain p where f: "find (\<lambda>product. id_num product = productId) (cart st) = Some p"
    using find_id_None [of productId "cart st"] by auto
  with assms(2-6) have u: "st' = st
      \<lparr>requests := requests st @ [GetStock productId],
       writes := writes st @ [JSON_stringify env ?new],
       localStorage := Some (JSON_stringify env ?new),
       cart := ?new\<rparr>"
    by (simp add: updateProductAmount_def updateProductAmount_try_def helper_defs)
  then have c: "cart st' = ?new" by simp
  have a: "\<forall>product \<in> set (cart st'). id_num product = productId \<longrightarrow> amount product = amount'"
  proof (intro ballI impI)
    fix q
    assume "q \<in> set (cart st')" and q: "id_num q = productId"
    then have "q \<in> (\<lambda>product. if id_num product = productId
                                  then product\<lparr>amount := amount'\<rparr> else product) ` set (cart st)"
      by (simp only: c set_map)
    then obtain x where x: "q = (if id_num x = productId then x\<lparr>amount := amount'\<rparr> else x)"
      by (rule imageE)
    show "amount q = amount'"
    proof (cases "id_num x = productId")
      case True
      with x show ?thesis by simp
    next
      case False
      with x have "q = x" by simp
      with q False show ?thesis by simp
    qed
  qed
  have o: "\<forall>i < length (cart st). id_num (cart st ! i) \<noteq> productId \<longrightarrow>
             cart st' ! i = cart st ! i"
    by (simp add: c)
  have d: "distinct (map id_num (cart st)) \<longrightarrow>
            (\<forall>i < length (cart st). id_num (cart st ! i) = productId \<longrightarrow>
               cart st' = (cart st)[i := (cart st ! i)\<lparr>amount := amount'\<rparr>])"
  proof (intro impI allI)
    fix i
    assume ds: "distinct (map id_num (cart st))" and i: "i < length (cart st)"
      and p: "id_num (cart st ! i) = productId"
    from map_id_distinct [OF ds i, of "\<lambda>product. product\<lparr>amount := amount'\<rparr>"]
    have "?new = (cart st)[i := (cart st ! i)\<lparr>amount := amount'\<rparr>]"
      unfolding p .
    then show "cart st' = (cart st)[i := (cart st ! i)\<lparr>amount := amount'\<rparr>]"
      by (simp only: c)
  qed
  from u have l: "localStorage st' = Some (JSON_stringify env (cart st'))"
    and w: "writes st' = writes st @ [JSON_stringify env (cart st')]"
    and t: "toasts st' = toasts st" by simp_all
  show ?thesis
    by (intro conjI) (rule c a o d l w t)+
qed

text \<open>Product 5, behind a bystander, set from 1 to 3, which is all the stock there is.\<close>

theorem updateProductAmount_sets_amount_witness:
  "5 \<in> id_num ` set (cart (store_of [item 7 4, item 5 1]))
   \<and> api_stock shop 5 = Some \<lparr>stock_id = 5, stock_amount = 3\<rparr>
   \<and> \<not> setItem_throws shop
   \<and> distinct (map id_num (cart (store_of [item 7 4, item 5 1])))
   \<and> 1 < length (cart (store_of [item 7 4, item 5 1]))
   \<and> id_num (cart (store_of [item 7 4, item 5 1]) ! 1) = 5
   \<and> cart (updateProductAmount shop 5 3 (store_of [item 7 4, item 5 1])) = [item 7 4, item 5 3]
   \<and> localStorage (updateProductAmount shop 5 3 (store_of [item 7 4, item 5 1]))
       = Some (JSON_stringify_plain [item 7 4, item 5 3])
   \<and> writes (updateProductAmount shop 5 3 (store_of [item 7 4, item 5 1]))
       = [JSON_stringify_plain [item 7 4, item 5 3]]
   \<and> toasts (updateProductAmount shop 5 3 (store_of [item 7 4, item 5 1])) = []"
proof -
  have h1: "5 \<in> id_num ` set (cart (store_of [item 7 4, item 5 1]))"
    by (simp add: shop_defs)
  have h2: "(1::int) \<le> 3"
    by simp
  have h3: "api_stock shop 5 = Some \<lparr>stock_id = 5, stock_amount = 3\<rparr>"
    by (simp add: shop_defs)
  have h4: "3 \<le> stock_amount \<lparr>stock_id = 5, stock_amount = 3\<rparr>"
    by simp
  have h5: "\<not> setItem_throws shop"
    by (simp add: shop_defs)
  have d1: "distinct (map id_num (cart (store_of [item 7 4, item 5 1])))"
    by (simp add: shop_defs)
  have d2: "1 < length (cart (store_of [item 7 4, item 5 1]))"
    by (simp add: shop_defs)
  have d3: "id_num (cart (store_of [item 7 4, item 5 1]) ! 1) = 5"
    by (simp add: shop_defs)
  note T = updateProductAmount_sets_amount [OF h1 h2 h3 h4 h5 refl]
  note c = T [THEN conjunct2, THEN conjunct2, THEN conjunct2, THEN conjunct1,
      rule_format, OF d1 d2 d3]
  note l = T [THEN conjunct2, THEN conjunct2, THEN conjunct2, THEN conjunct2, THEN conjunct1]
  note w = T [THEN conjunct2, THEN conjunct2, THEN conjunct2, THEN conjunct2, THEN conjunct2,
      THEN conjunct1]
  note t = T [THEN conjunct2, THEN conjunct2, THEN conjunct2, THEN conjunct2, THEN conjunct2,
      THEN conjunct2]
  from c have c': "cart (updateProductAmount shop 5 3 (store_of [item 7 4, item 5 1]))
      = [item 7 4, item 5 3]"
    by (simp add: store_of_def item_def)
  have l': "localStorage (updateProductAmount shop 5 3 (store_of [item 7 4, item 5 1]))
       = Some (JSON_stringify_plain [item 7 4, item 5 3])"
    using l unfolding c' by (simp add: shop_def)
  have w': "writes (updateProductAmount shop 5 3 (store_of [item 7 4, item 5 1]))
       = [JSON_stringify_plain [item 7 4, item 5 3]]"
    using w unfolding c' by (simp add: shop_def store_of_def)
  have t': "toasts (updateProductAmount shop 5 3 (store_of [item 7 4, item 5 1])) = []"
    using t by (simp add: store_of_def)
  show ?thesis
    by (intro conjI) (rule h1 h3 h5 d1 d2 d3 c' l' w' t')+
qed

text \<open>
  C10. When \<open>productId\<close> is in the cart, the amount asked for is at least 1 and the stock
  request is rejected, \<^verbatim>\<open>updateProductAmount\<close> calls \<^verbatim>\<open>toast.error\<close> exactly once, with
  the quantity-change text, and leaves the cart and the stored item as they were, with no
  call of \<^verbatim>\<open>setItem\<close>. The text is the one of the not-found case: whenever \<open>productId\<close> is
  not in the cart, the same call notifies exactly that text.
\<close>

theorem updateProductAmount_stock_lookup_fails:
  assumes "productId \<in> id_num ` set (cart st)" and "1 \<le> amount'"
    and "api_stock env productId = None"
  shows "toasts (updateProductAmount env productId amount' st) = toasts st @ [UpdateError]
       \<and> cart (updateProductAmount env productId amount' st) = cart st
       \<and> localStorage (updateProductAmount env productId amount' st) = localStorage st
       \<and> writes (updateProductAmount env productId amount' st) = writes st
       \<and> (\<forall>st0. productId \<notin> id_num ` set (cart st0) \<longrightarrow>
            toasts (updateProductAmount env productId amount' st0) = toasts st0 @ [UpdateError])"
proof -
  from assms(1) have "find (\<lambda>product. id_num product = productId) (cart st) \<noteq> None"
    by (simp add: find_id_None)
  with assms(2,3)
  have 1: "toasts (updateProductAmount env productId amount' st) = toasts st @ [UpdateError]
       \<and> cart (updateProductAmount env productId amount' st) = cart st
       \<and> localStorage (updateProductAmount env productId amount' st) = localStorage st
       \<and> writes (updateProductAmount env productId amount' st) = writes st"
    by (simp add: updateProductAmount_def updateProductAmount_try_def helper_defs)
  have "toasts (updateProductAmount env productId amount' st0) = toasts st0 @ [UpdateError]"
    if "productId \<notin> id_num ` set (cart st0)" for st0 :: "'a store"
  proof -
    from that have "find (\<lambda>product. id_num product = productId) (cart st0) = None"
      by (simp add: find_id_None)
    with assms(2) show ?thesis
      by (simp add: updateProductAmount_def updateProductAmount_try_def helper_defs)
  qed
  with 1 show ?thesis by blast
qed

text \<open>
  The shop rejects the stock request for product 9; the cart of the not-found case holds
  product 5 only.
\<close>

theorem updateProductAmount_stock_lookup_fails_witness:
  "9 \<in> id_num ` set (cart (store_of [item 9 1]))
   \<and> api_stock shop 9 = None
   \<and> toasts (updateProductAmount shop 9 2 (store_of [item 9 1])) = [UpdateError]
   \<and> cart (updateProductAmount shop 9 2 (store_of [item 9 1])) = [item 9 1]
   \<and> localStorage (updateProductAmount shop 9 2 (store_of [item 9 1])) = None
   \<and> writes (updateProductAmount shop 9 2 (store_of [item 9 1])) = []
   \<and> 9 \<notin> id_num ` set (cart (store_of [item 5 2]))
   \<and> toasts (updateProductAmount shop 9 2 (store_of [item 5 2])) = [UpdateError]"
proof -
  have h1: "9 \<in> id_num ` set (cart (store_of [item 9 1]))"
    by (simp add: shop_defs)
  have h2: "(1::int) \<le> 2"
    by simp
  have h3: "api_stock shop 9 = None"
    by (simp add: shop_defs)
  have h4: "9 \<notin> id_num ` set (cart (store_of [item 5 2]))"
    by (simp add: shop_defs)
  from updateProductAmount_stock_lookup_fails [OF h1 h2 h3] h1 h3 h4 show ?thesis
    by (simp add: store_of_def)
qed

text \<open>
  When every check is passed and the store refuses the write, the updater throws while
  React runs it: the cart and the stored item stay, and the error is thrown inside React.
\<close>

lemma updateProductAmount_save_fails:
  assumes "accepted env (UpdateProductAmount productId amount') st" and "setItem_throws env"
  shows "cart (updateProductAmount env productId amount' st) = cart st
       \<and> localStorage (updateProductAmount env productId amount' st) = localStorage st
       \<and> toasts (updateProductAmount env productId amount' st) = toasts st
       \<and> uncaught (updateProductAmount env productId amount' st)
           = uncaught st @ [QuotaExceededError]"
  using assms
  by (auto simp: updateProductAmount_def updateProductAmount_try_def helper_defs
      split: option.splits)

subsection \<open>The invariants\<close>

text \<open>What each operation can do to the cart.\<close>

lemma cart_addProduct_cases:
  "cart (addProduct env productId st) = cart st
   \<or> (\<exists>d. productId \<notin> id_num ` set (cart st) \<and> api_products env productId = Some d
         \<and> cart (addProduct env productId st)
            = cart st @ [\<lparr>id_num = data_id d, catalog = data_fields d, amount = 1\<rparr>])
   \<or> cart (addProduct env productId st)
        = map (\<lambda>product. if id_num product = productId
                          then product\<lparr>amount := plus_number (amount product) 1\<rparr>
                          else product) (cart st)"
proof (cases "find (\<lambda>product. id_num product = productId) (cart st)")
  case None
  then have "productId \<notin> id_num ` set (cart st)" by (simp add: find_id_None)
  with None show ?thesis
    by (simp add: addProduct_def addProduct_try_def helper_defs split: option.splits)
next
  case (Some p)
  then show ?thesis
    by (simp add: addProduct_def addProduct_try_def helper_defs split: option.splits)
qed

lemma cart_removeProduct_cases:
  "cart (removeProduct env productId st) = cart st
   \<or> cart (removeProduct env productId st)
        = filter (\<lambda>product. id_num product \<noteq> productId) (cart st)"
  by (simp add: removeProduct_def removeProduct_try_def helper_defs)

lemma cart_updateProductAmount_cases:
  "cart (updateProductAmount env productId amount' st) = cart st
   \<or> 1 \<le> amount' \<and> cart (updateProductAmount env productId amount' st)
        = map (\<lambda>product. if id_num product = productId
                          then product\<lparr>amount := amount'\<rparr> else product) (cart st)"
  by (simp add: updateProductAmount_def updateProductAmount_try_def helper_defs split: option.splits)

lemma cart_inv_append:
  "cart_inv c \<Longrightarrow> 1 \<le> amount p \<Longrightarrow> id_num p \<notin> id_num ` set c \<Longrightarrow> cart_inv (c @ [p])"
  by (auto simp: cart_inv_def)

lemma map_id_num_amount:
  "map id_num (map (\<lambda>product. if id_num product = productId
                          then product\<lparr>amount := f product\<rparr> else product) c) = map id_num c"
  by (induction c) auto

lemma cart_inv_map_amount:
  assumes "cart_inv c" and "\<And>product. product \<in> set c \<Longrightarrow> 1 \<le> f product"
  shows "cart_inv (map (\<lambda>product. if id_num product = productId
                          then product\<lparr>amount := f product\<rparr> else product) c)"
proof -
  have "distinct (map id_num (map (\<lambda>product. if id_num product = productId
                          then product\<lparr>amount := f product\<rparr> else product) c))"
    using assms(1) by (simp only: map_id_num_amount cart_inv_def)
  moreover have "\<forall>q \<in> set (map (\<lambda>product. if id_num product = productId
                          then product\<lparr>amount := f product\<rparr> else product) c). 1 \<le> amount q"
    using assms by (auto simp: cart_inv_def)
  ultimately show ?thesis by (simp only: cart_inv_def) 
qed

lemma cart_inv_filter: "cart_inv c \<Longrightarrow> cart_inv (filter P c)"
  by (auto simp: cart_inv_def distinct_map_filter)

lemma cart_inv_addProduct:
  assumes "cart_inv (cart st)" and "consistent_catalog env productId"
  shows "cart_inv (cart (addProduct env productId st))"
proof -
  consider (same) "cart (addProduct env productId st) = cart st"
    | (new) d where "productId \<notin> id_num ` set (cart st)" "api_products env productId = Some d"
        "cart (addProduct env productId st)
            = cart st @ [\<lparr>id_num = data_id d, catalog = data_fields d, amount = 1\<rparr>]"
    | (more) "cart (addProduct env productId st)
        = map (\<lambda>product. if id_num product = productId
                          then product\<lparr>amount := plus_number (amount product) 1\<rparr>
                          else product) (cart st)"
    using cart_addProduct_cases [of env productId st] by blast
  then show ?thesis
  proof cases
    case same
    with assms(1) show ?thesis by simp
  next
    case new
    from new(2) assms(2) have "data_id d = productId" by (simp add: consistent_catalog_def)
    with new(1) assms(1) have "cart_inv (cart st @ [\<lparr>id_num = data_id d, catalog = data_fields d, amount = 1\<rparr>])"
      by (intro cart_inv_append) simp_all
    with new(3) show ?thesis by simp
  next
    case more
    have "1 \<le> plus_number (amount product) 1" if "product \<in> set (cart st)" for product
    proof -
      from that assms(1) have "0 < amount product + 1" by (fastforce simp: cart_inv_def)
      then have "0 < plus_number (amount product) 1" by (rule plus_number_pos)
      then show ?thesis by simp
    qed
    from cart_inv_map_amount [OF assms(1) this] more show ?thesis by simp
  qed
qed

lemma cart_inv_removeProduct:
  "cart_inv (cart st) \<Longrightarrow> cart_inv (cart (removeProduct env productId st))"
  using cart_removeProduct_cases [of env productId st] by (auto simp: cart_inv_filter)

lemma cart_inv_updateProductAmount:
  assumes "cart_inv (cart st)"
  shows "cart_inv (cart (updateProductAmount env productId amount' st))"
proof -
  consider "cart (updateProductAmount env productId amount' st) = cart st"
    | "1 \<le> amount'" "cart (updateProductAmount env productId amount' st)
        = map (\<lambda>product. if id_num product = productId
                          then product\<lparr>amount := amount'\<rparr> else product) (cart st)"
    using cart_updateProductAmount_cases [of env productId amount' st] by blast
  then show ?thesis
  proof cases
    case 1
    with assms show ?thesis by simp
  next
    case 2
    from cart_inv_map_amount [OF assms, of "\<lambda>product. amount'"] 2 show ?thesis by simp
  qed
qed

lemma cart_inv_exec:
  "cart_inv (cart st) \<Longrightarrow> consistent_call (env, c) \<Longrightarrow> cart_inv (cart (exec env c st))"
  by (cases c) (simp_all add: cart_inv_addProduct cart_inv_removeProduct cart_inv_updateProductAmount)

lemma cart_inv_run:
  "cart_inv (cart st) \<Longrightarrow> list_all consistent_call calls \<Longrightarrow> cart_inv (cart (run calls st))"
proof (induction calls arbitrary: st)
  case Nil
  then show ?case by simp
next
  case (Cons a calls)
  obtain env c where a: "a = (env, c)" by (cases a)
  with Cons.prems have "cart_inv (cart (exec env c st))" by (simp add: cart_inv_exec)
  with Cons.IH [of "exec env c st"] Cons.prems a show ?case by simp
qed

text \<open>
  C1. Start from a store whose cart satisfies I1 and I2 and apply any calls of the three
  operations, one after the other; then the cart still satisfies I1 and I2, and so does
  the cart that each of \<^verbatim>\<open>addProduct\<close>, \<^verbatim>\<open>removeProduct\<close> and \<^verbatim>\<open>updateProductAmount\<close>
  leaves, whatever their arguments. For \<^verbatim>\<open>addProduct\<close> this rests on the catalogue:
  the id of a new product is the one in the answer to \<^verbatim>\<open>GET products/<productId>\<close>, which
  has to be \<open>productId\<close>.
\<close>

theorem invariants_preserved:
  assumes "cart_inv (cart st0)" and "list_all consistent_call calls" and "st = run calls st0"
    and "consistent_catalog env productId"
  shows "cart_inv (cart st)
       \<and> cart_inv (cart (addProduct env productId st))
       \<and> cart_inv (cart (removeProduct env productId' st))
       \<and> cart_inv (cart (updateProductAmount env productId'' amount' st))"
proof -
  from assms(1-3) have "cart_inv (cart st)" by (simp add: cart_inv_run)
  with assms(4) show ?thesis
    by (simp add: cart_inv_addProduct cart_inv_removeProduct cart_inv_updateProductAmount)
qed

text \<open>
  The first two steps of the scenario of the specification lead to the cart with two
  units of product 5; from there: add product 8, remove product 5, set product 5 to 3.
\<close>

theorem invariants_preserved_witness:
  "cart_inv (cart (store_of ([] :: unit product list)))
   \<and> list_all consistent_call [(shop, AddProduct 5), (shop, AddProduct 5)]
   \<and> consistent_catalog shop 8
   \<and> cart (run [(shop, AddProduct 5), (shop, AddProduct 5)] (store_of [])) = [item 5 2]
   \<and> cart (addProduct shop 8 (run [(shop, AddProduct 5), (shop, AddProduct 5)] (store_of [])))
       = [item 5 2, item 8 1]
   \<and> cart (removeProduct shop 5 (run [(shop, AddProduct 5), (shop, AddProduct 5)] (store_of [])))
       = []
   \<and> cart (updateProductAmount shop 5 3
        (run [(shop, AddProduct 5), (shop, AddProduct 5)] (store_of []))) = [item 5 3]
   \<and> cart_inv [item 5 2] \<and> cart_inv [item 5 2, item 8 1] \<and> cart_inv ([] :: unit product list)
   \<and> cart_inv [item 5 3]"
proof -
  let ?st = "run [(shop, AddProduct 5), (shop, AddProduct 5)] (store_of [])"
  have h1: "cart_inv (cart (store_of ([] :: unit product list)))"
    by (simp add: store_of_def cart_inv_def)
  have h2: "list_all consistent_call [(shop, AddProduct 5), (shop, AddProduct 5)]"
    by (simp add: shop_def consistent_catalog_def)
  have h4: "consistent_catalog shop 8"
    by (simp add: shop_def consistent_catalog_def)
  have r: "cart ?st = [item 5 2]"
    by (simp add: shop_defs addProduct_def addProduct_try_def helper_defs plus_number_exact)
  have a: "cart (addProduct shop 8 ?st) = [item 5 2, item 8 1]"
    by (simp add: shop_defs addProduct_def addProduct_try_def helper_defs plus_number_exact)
  have b: "cart (removeProduct shop 5 ?st) = []"
    by (simp add: shop_defs addProduct_def addProduct_try_def removeProduct_def
        removeProduct_try_def helper_defs plus_number_exact)
  have c: "cart (updateProductAmount shop 5 3 ?st) = [item 5 3]"
    by (simp add: shop_defs addProduct_def addProduct_try_def updateProductAmount_def
        updateProductAmount_try_def helper_defs plus_number_exact)
  from invariants_preserved [OF h1 h2 refl h4, of 5 5 3]
  have "cart_inv (cart ?st) \<and> cart_inv (cart (addProduct shop 8 ?st))
      \<and> cart_inv (cart (removeProduct shop 5 ?st))
      \<and> cart_inv (cart (updateProductAmount shop 5 3 ?st))" .
  with r a b c h1 h2 h4 show ?thesis by simp
qed

subsection \<open>The texts of the concrete shop\<close>

text \<open>
  The printer and the parser of the concrete shop fit together: the parser reads every
  text the printer writes, and gives the cart back.
\<close>

lemma digit_is_digit: "k < 10 \<Longrightarrow> is_digit (''0123456789'' ! k)"
  unfolding is_digit_def by (rule nth_mem) simp

lemma digit_value: "k < 10 \<Longrightarrow> of_char (''0123456789'' ! k) - 48 = (k::nat)"
proof -
  assume "k < 10"
  then have "k = 0 \<or> k = 1 \<or> k = 2 \<or> k = 3 \<or> k = 4 \<or> k = 5 \<or> k = 6
    \<or> k = 7 \<or> k = 8 \<or> k = 9" by arith
  then show ?thesis by (elim disjE) simp_all
qed

lemma digit_zero: "k < 10 \<Longrightarrow> ''0123456789'' ! k = CHR ''0'' \<Longrightarrow> k = 0"
proof -
  assume "k < 10" and z: "''0123456789'' ! k = CHR ''0''"
  then have "k = 0 \<or> k = 1 \<or> k = 2 \<or> k = 3 \<or> k = 4 \<or> k = 5 \<or> k = 6
    \<or> k = 7 \<or> k = 8 \<or> k = 9" by arith
  then show ?thesis using z by (elim disjE) simp_all
qed

lemma show_nat_small: "n < 10 \<Longrightarrow> show_nat n = [''0123456789'' ! n]"
  by (subst show_nat.simps) simp

lemma show_nat_large:
  "\<not> n < 10 \<Longrightarrow> show_nat n = show_nat (n div 10) @ [''0123456789'' ! (n mod 10)]"
  by (subst show_nat.simps) simp

declare show_nat.simps [simp del]

lemma show_nat_digits: "\<forall>c \<in> set (show_nat n). is_digit c"
proof (induction n rule: show_nat.induct)
  case (1 n)
  show ?case
  proof (cases "n < 10")
    case True
    then show ?thesis by (simp add: show_nat_small digit_is_digit)
  next
    case False
    with 1 show ?thesis by (simp add: show_nat_large digit_is_digit)
  qed
qed

lemma show_nat_nonempty: "show_nat n \<noteq> []"
  by (cases "n < 10") (simp_all add: show_nat_small show_nat_large)

lemma show_nat_value: "foldl (\<lambda>n c. 10 * n + (of_char c - 48)) 0 (show_nat n) = n"
proof (induction n rule: show_nat.induct)
  case (1 n)
  show ?case
  proof (cases "n < 10")
    case True
    then show ?thesis by (simp add: show_nat_small digit_value)
  next
    case False
    with 1 show ?thesis by (simp add: show_nat_large digit_value)
  qed
qed

lemma show_nat_hd: "0 < n \<Longrightarrow> hd (show_nat n) \<noteq> CHR ''0''"
proof (induction n rule: show_nat.induct)
  case (1 n)
  show ?case
  proof (cases "n < 10")
    case True
    with 1(2) show ?thesis using digit_zero [of n] by (auto simp: show_nat_small)
  next
    case False
    then have "0 < n div 10" by simp
    with 1(1) False have "hd (show_nat (n div 10)) \<noteq> CHR ''0''" by simp
    with False show ?thesis by (simp add: show_nat_large show_nat_nonempty)
  qed
qed

lemma show_nat_length: "1 < length (show_nat n) \<Longrightarrow> 0 < n"
  by (cases "n = 0") (simp_all add: show_nat_small)

lemma read_nat_show_nat: "stops r \<Longrightarrow> read_nat (show_nat n @ r) = Some (n, r)"
proof -
  assume r: "stops r"
  have t: "takeWhile is_digit (show_nat n @ r) = show_nat n"
    using r show_nat_digits [of n] by (cases r) (simp_all add: stops_def takeWhile_append2)
  have d: "dropWhile is_digit (show_nat n @ r) = r"
    using r show_nat_digits [of n] by (cases r) (simp_all add: stops_def dropWhile_append2)
  have "\<not> (1 < length (show_nat n) \<and> hd (show_nat n) = CHR ''0'')"
    using show_nat_hd [of n] show_nat_length [of n] by blast
  with t d show ?thesis
    by (simp add: read_nat_def Let_def show_nat_nonempty show_nat_value)
qed

lemma show_nat_not_minus: "hd (show_nat n) \<noteq> CHR ''-''"
proof -
  have "hd (show_nat n) \<in> set (show_nat n)" by (simp add: show_nat_nonempty)
  with show_nat_digits [of n] have "is_digit (hd (show_nat n))" by blast
  then show ?thesis by (auto simp: is_digit_def)
qed

lemma read_int_show_int: "stops r \<Longrightarrow> read_int (show_int i @ r) = Some (i, r)"
proof (cases "i < 0")
  case True
  assume "stops r"
  with True show ?thesis
    by (simp add: read_int_def show_int_def read_nat_show_nat)
next
  case False
  assume r: "stops r"
  obtain c s where cs: "show_nat (nat i) = c # s"
    using show_nat_nonempty [of "nat i"] by (cases "show_nat (nat i)") auto
  with show_nat_not_minus [of "nat i"] have "c \<noteq> CHR ''-''" by simp
  moreover have "read_nat ((c # s) @ r) = Some (nat i, r)"
    using read_nat_show_nat [OF r, of "nat i"] cs by simp
  ultimately show ?thesis using False cs
    by (simp add: read_int_def show_int_def)
qed

lemma expect_append: "expect lit (lit @ s) = Some s"
  by (simp add: expect_def)

lemma stops_simps: "stops []" "stops (CHR '','' # s)" "stops (CHR ''}'' # s)" "stops (CHR '']'' # s)"
  by (simp_all add: stops_def is_digit_def)

lemma read_product_stringify:
  "stops r \<Longrightarrow> read_product (stringify_product p @ r) = Some (p, r)"
proof -
  assume r: "stops r"
  have 1: \<open>expect ''{"id":'' (stringify_product p @ r)
        = Some (show_int (id_num p) @ '',"amount":'' @ show_int (amount p) @ ''}'' @ r)\<close>
    unfolding stringify_product_def append_assoc by (rule expect_append)
  have 2: \<open>read_int (show_int (id_num p) @ '',"amount":'' @ show_int (amount p) @ ''}'' @ r)
        = Some (id_num p, '',"amount":'' @ show_int (amount p) @ ''}'' @ r)\<close>
    by (rule read_int_show_int) (simp add: stops_simps)
  have 3: \<open>expect '',"amount":'' ('',"amount":'' @ show_int (amount p) @ ''}'' @ r)
        = Some (show_int (amount p) @ ''}'' @ r)\<close>
    by (rule expect_append)
  have 4: "read_int (show_int (amount p) @ ''}'' @ r) = Some (amount p, ''}'' @ r)"
    by (rule read_int_show_int) (simp add: stops_simps)
  have 5: "expect ''}'' (''}'' @ r) = Some r"
    by (rule expect_append)
  show ?thesis
    unfolding read_product_def 1 2 3 4 5 option.case prod.case by (cases p) simp
qed

lemma stringify_product_nonempty: "stringify_product p \<noteq> []"
  by (simp add: stringify_product_def)

lemma join_commas_nonempty: "ps \<noteq> [] \<Longrightarrow> join_commas (map stringify_product ps) \<noteq> []"
  by (induction ps rule: induct_list012) (simp_all add: stringify_product_nonempty)

lemma join_commas_length: "length ps \<le> length (join_commas (map stringify_product ps))"
proof (induction ps rule: induct_list012)
  case 1
  then show ?case by simp
next
  case (2 p)
  then show ?case using stringify_product_nonempty [of p]
    by (cases "stringify_product p") simp_all
next
  case (3 p q ps)
  then show ?case using stringify_product_nonempty [of p]
    by (cases "stringify_product p") simp_all
qed

lemma read_products_join:
  "ps \<noteq> [] \<Longrightarrow> length ps \<le> fuel \<Longrightarrow>
   read_products fuel (join_commas (map stringify_product ps) @ '']'') = Some ps"
proof (induction ps arbitrary: fuel rule: induct_list012)
  case 1
  then show ?case by simp
next
  case (2 p)
  then obtain k where "fuel = Suc k" by (cases fuel) auto
  then show ?case
    by (simp add: read_product_stringify stops_simps)
next
  case (3 p q ps)
  then obtain k where k: "fuel = Suc k" and l: "length (q # ps) \<le> k" by (cases fuel) auto
  have "read_product (stringify_product p @ '','' @ join_commas (map stringify_product (q # ps)) @ '']'')
        = Some (p, '','' @ join_commas (map stringify_product (q # ps)) @ '']'')"
    by (rule read_product_stringify) (simp add: stops_simps)
  moreover have "read_products k (join_commas (map stringify_product (q # ps)) @ '']'') = Some (q # ps)"
    using 3(2) [OF _ l] by simp
  ultimately show ?case using k
    by (simp add: expect_def)
qed

lemma JSON_plain_roundtrip: "JSON_parse_plain (JSON_stringify_plain c) = Inr c"
proof (cases c)
  case Nil
  then show ?thesis by (simp add: JSON_parse_plain_def JSON_stringify_plain_def)
next
  case (Cons p ps)
  let ?t = "join_commas (map stringify_product c) @ '']''"
  from Cons have ne: "join_commas (map stringify_product c) \<noteq> []"
    by (intro join_commas_nonempty) simp
  then have n2: "''['' @ ?t \<noteq> ''[]''"
    by (cases "join_commas (map stringify_product c)") simp_all
  have e: "expect ''['' (''['' @ ?t) = Some ?t" by (rule expect_append)
  have "length c \<le> length ?t" using join_commas_length [of c] by simp
  with Cons have "read_products (length ?t) ?t = Some c"
    by (intro read_products_join) simp_all
  with n2 e show ?thesis
    unfolding JSON_parse_plain_def JSON_stringify_plain_def by simp
qed

lemma JSON_plain_nonempty: "JSON_stringify_plain c \<noteq> []"
  by (simp add: JSON_stringify_plain_def)

subsection \<open>The stored snapshot\<close>

text \<open>
  A call passes \<^verbatim>\<open>setItem\<close> a text exactly when it is accepted; a call that is not accepted
  leaves the cart and the stored item as they were.
\<close>

lemma exec_writes_iff: "(writes (exec env c st) \<noteq> writes st) = accepted env c st"
proof (cases c)
  case (AddProduct productId)
  then show ?thesis
    by (auto simp: addProduct_def addProduct_try_def helper_defs split: option.splits)
next
  case (RemoveProduct productId)
  then show ?thesis
    by (auto simp: removeProduct_def removeProduct_try_def helper_defs)
next
  case (UpdateProductAmount productId amount')
  then show ?thesis
    by (auto simp: updateProductAmount_def updateProductAmount_try_def helper_defs
        split: option.splits)
qed

lemma exec_not_accepted:
  assumes "\<not> accepted env c st"
  shows "cart (exec env c st) = cart st \<and> localStorage (exec env c st) = localStorage st"
proof (cases c)
  case (AddProduct productId)
  with assms show ?thesis
    by (auto simp: addProduct_def addProduct_try_def helper_defs split: option.splits)
next
  case (RemoveProduct productId)
  with assms show ?thesis
    by (auto simp: removeProduct_def removeProduct_try_def helper_defs)
next
  case (UpdateProductAmount productId amount')
  with assms show ?thesis
    by (auto simp: updateProductAmount_def updateProductAmount_try_def helper_defs
        split: option.splits)
qed

text \<open>
  An accepted call whose write the store takes has passed \<^verbatim>\<open>setItem\<close> the text of the very
  cart it publishes, and that text is the stored item.
\<close>

lemma exec_commits:
  assumes "accepted env c st" and "\<not> setItem_throws env"
  shows "writes (exec env c st) = writes st @ [JSON_stringify env (cart (exec env c st))]
       \<and> localStorage (exec env c st) = Some (JSON_stringify env (cart (exec env c st)))"
proof (cases c)
  case (AddProduct productId)
  with assms show ?thesis
    by (auto simp: addProduct_def addProduct_try_def helper_defs split: option.splits)
next
  case (RemoveProduct productId)
  with assms show ?thesis
    by (auto simp: removeProduct_def removeProduct_try_def helper_defs)
next
  case (UpdateProductAmount productId amount')
  with assms show ?thesis
    by (auto simp: updateProductAmount_def updateProductAmount_try_def helper_defs
        split: option.splits)
qed

text \<open>In the concrete shop, whatever an accepted call has written reads back as the cart it left.\<close>

lemma shop_snapshot_reads_back:
  assumes "accepted shop c st"
  shows "CartProvider_init shop (localStorage (exec shop c st)) = Inr (cart (exec shop c st))"
proof -
  have "\<not> setItem_throws shop" by (simp add: shop_def)
  with exec_commits [OF assms]
  have "localStorage (exec shop c st) = Some (JSON_stringify shop (cart (exec shop c st)))"
    by simp
  then show ?thesis
    by (simp add: CartProvider_init_def shop_def JSON_plain_roundtrip JSON_plain_nonempty)
qed

text \<open>
  C8. After a successful mutation by any of the three operations, that is, a call that is
  accepted and whose write the store takes, exactly one text has been passed to
  \<^verbatim>\<open>setItem\<close>: the text of the new cart, which is the stored item. Reading the item back
  the way the initialiser does yields the new cart, given what \<^verbatim>\<open>JSON.stringify\<close> and
  \<^verbatim>\<open>JSON.parse\<close> guarantee for this cart: the text is not empty, and parsing it gives the
  cart back.
\<close>

theorem persisted_snapshot_is_cart:
  assumes "accepted env c st" and "\<not> setItem_throws env"
    and "st' = exec env c st"
    and "JSON_stringify env (cart st') \<noteq> []"
    and "JSON_parse env (JSON_stringify env (cart st')) = Inr (cart st')"
  shows "writes st' = writes st @ [JSON_stringify env (cart st')]
       \<and> localStorage st' = Some (JSON_stringify env (cart st'))
       \<and> CartProvider_init env (localStorage st') = Inr (cart st')"
proof -
  from exec_commits [OF assms(1,2)] assms(3)
  have w: "writes st' = writes st @ [JSON_stringify env (cart st')]"
    and l: "localStorage st' = Some (JSON_stringify env (cart st'))"
    by simp_all
  from l assms(4,5) have "CartProvider_init env (localStorage st') = Inr (cart st')"
    by (simp add: CartProvider_init_def)
  with w l show ?thesis by simp
qed

text \<open>
  One successful call of each operation: adding product 5 to a cart that holds product 7,
  removing product 5 from a cart that holds it and product 7, and setting product 5 from
  1 to 3.
\<close>

theorem persisted_snapshot_is_cart_witness:
  "accepted shop (AddProduct 5) (store_of [item 7 4])
   \<and> accepted shop (RemoveProduct 5) (store_of [item 7 4, item 5 2])
   \<and> accepted shop (UpdateProductAmount 5 3) (store_of [item 5 1])
   \<and> \<not> setItem_throws shop
   \<and> cart (exec shop (AddProduct 5) (store_of [item 7 4])) = [item 7 4, item 5 1]
   \<and> cart (exec shop (RemoveProduct 5) (store_of [item 7 4, item 5 2])) = [item 7 4]
   \<and> cart (exec shop (UpdateProductAmount 5 3) (store_of [item 5 1])) = [item 5 3]
   \<and> JSON_parse shop (JSON_stringify shop [item 7 4, item 5 1]) = Inr [item 7 4, item 5 1]
   \<and> JSON_parse shop (JSON_stringify shop [item 7 4]) = Inr [item 7 4]
   \<and> JSON_parse shop (JSON_stringify shop [item 5 3]) = Inr [item 5 3]
   \<and> writes (exec shop (AddProduct 5) (store_of [item 7 4]))
       = [JSON_stringify shop [item 7 4, item 5 1]]
   \<and> writes (exec shop (RemoveProduct 5) (store_of [item 7 4, item 5 2]))
       = [JSON_stringify shop [item 7 4]]
   \<and> writes (exec shop (UpdateProductAmount 5 3) (store_of [item 5 1]))
       = [JSON_stringify shop [item 5 3]]
   \<and> CartProvider_init shop (localStorage (exec shop (AddProduct 5) (store_of [item 7 4])))
       = Inr [item 7 4, item 5 1]
   \<and> CartProvider_init shop
        (localStorage (exec shop (RemoveProduct 5) (store_of [item 7 4, item 5 2])))
       = Inr [item 7 4]
   \<and> CartProvider_init shop
        (localStorage (exec shop (UpdateProductAmount 5 3) (store_of [item 5 1])))
       = Inr [item 5 3]"
proof -
  have t: "\<not> setItem_throws shop"
    by (simp add: shop_def)
  have a1: "accepted shop (AddProduct 5) (store_of [item 7 4])"
    by (simp add: shop_defs)
  have a2: "cart (exec shop (AddProduct 5) (store_of [item 7 4])) = [item 7 4, item 5 1]"
    by (simp add: shop_defs addProduct_def addProduct_try_def helper_defs)
  have a3: "JSON_stringify shop [item 7 4, item 5 1] \<noteq> []"
    by (simp add: shop_def JSON_stringify_plain_def)
  have a4: "JSON_parse shop (JSON_stringify shop [item 7 4, item 5 1]) = Inr [item 7 4, item 5 1]"
    by code_simp
  have r1: "accepted shop (RemoveProduct 5) (store_of [item 7 4, item 5 2])"
    by (simp add: shop_defs)
  have r2: "cart (exec shop (RemoveProduct 5) (store_of [item 7 4, item 5 2])) = [item 7 4]"
    by (simp add: shop_defs removeProduct_def removeProduct_try_def helper_defs)
  have r3: "JSON_stringify shop [item 7 4] \<noteq> []"
    by (simp add: shop_def JSON_stringify_plain_def)
  have r4: "JSON_parse shop (JSON_stringify shop [item 7 4]) = Inr [item 7 4]"
    by code_simp
  have u1: "accepted shop (UpdateProductAmount 5 3) (store_of [item 5 1])"
    by (simp add: shop_defs)
  have u2: "cart (exec shop (UpdateProductAmount 5 3) (store_of [item 5 1])) = [item 5 3]"
    by (simp add: shop_defs updateProductAmount_def updateProductAmount_try_def helper_defs)
  have u3: "JSON_stringify shop [item 5 3] \<noteq> []"
    by (simp add: shop_def JSON_stringify_plain_def)
  have u4: "JSON_parse shop (JSON_stringify shop [item 5 3]) = Inr [item 5 3]"
    by code_simp
  have w: "writes (store_of c) = []" for c :: "unit product list"
    by (simp add: store_of_def)
  note a = persisted_snapshot_is_cart [OF a1 t refl, unfolded a2, OF a3 a4]
  note r = persisted_snapshot_is_cart [OF r1 t refl, unfolded r2, OF r3 r4]
  note u = persisted_snapshot_is_cart [OF u1 t refl, unfolded u2, OF u3 u4]
  note aw = a [THEN conjunct1, unfolded w append_Nil]
  note rw = r [THEN conjunct1, unfolded w append_Nil]
  note uw = u [THEN conjunct1, unfolded w append_Nil]
  note ai = a [THEN conjunct2, THEN conjunct2]
  note ri = r [THEN conjunct2, THEN conjunct2]
  note ui = u [THEN conjunct2, THEN conjunct2]
  from t a1 r1 u1 a2 r2 u2 a4 r4 u4 aw rw uw ai ri ui show ?thesis
    by blast
qed

subsection \<open>The initial cart\<close>

text \<open>
  C9, as the code has it. The initial cart is read from the store: without a stored item,
  or with the empty text, it is the empty cart; with any other text it is what
  \<^verbatim>\<open>JSON.parse\<close> makes of the text, and when \<^verbatim>\<open>JSON.parse\<close> throws, so does the
  initialiser.
\<close>

theorem CartProvider_init_cases:
  "CartProvider_init env None = Inr []
   \<and> CartProvider_init env (Some []) = Inr []
   \<and> (s \<noteq> [] \<longrightarrow> CartProvider_init env (Some s) = JSON_parse env s)
   \<and> (s \<noteq> [] \<and> JSON_parse env s = Inl e \<longrightarrow> CartProvider_init env (Some s) = Inl e)"
  by (simp add: CartProvider_init_def)

text \<open>No item; the empty text; the text of a cart; a text that is not JSON.\<close>

theorem CartProvider_init_cases_witness:
  "CartProvider_init shop None = Inr []
   \<and> CartProvider_init shop (Some []) = Inr []
   \<and> JSON_stringify_plain [item 5 2] \<noteq> []
   \<and> CartProvider_init shop (Some (JSON_stringify_plain [item 5 2])) = Inr [item 5 2]
   \<and> ''{'' \<noteq> []
   \<and> JSON_parse shop ''{'' = Inl SyntaxError
   \<and> CartProvider_init shop (Some ''{'') = Inl SyntaxError"
proof -
  have n: "JSON_stringify_plain [item 5 2] \<noteq> []"
    by code_simp
  have p: "JSON_parse shop (JSON_stringify_plain [item 5 2]) = Inr [item 5 2]"
    by code_simp
  have m: "''{'' \<noteq> []"
    by simp
  have q: "JSON_parse shop ''{'' = Inl SyntaxError"
    by code_simp
  from CartProvider_init_cases [of shop "JSON_stringify_plain [item 5 2]"]
    CartProvider_init_cases [of shop "''{''" SyntaxError] n p m q
  show ?thesis by simp
qed

text \<open>
  C9, as it is stated, fails: the stored text \<^verbatim>\<open>{\<close> is unreadable, and the initialiser
  ends with the \<open>SyntaxError\<close> instead of the empty cart.
\<close>

theorem CartProvider_init_unreadable_counterexample:
  "JSON_parse shop ''{'' = Inl SyntaxError
   \<and> CartProvider_init shop (Some ''{'') = Inl SyntaxError
   \<and> CartProvider_init shop (Some ''{'') \<noteq> Inr []"
  by (simp add: CartProvider_init_def shop_def JSON_parse_plain_def expect_def)

end
